theory Spec2Isabelle
  imports Complex_Main "HOL-Library.Log_Nat"
begin

section \<open>Timing functions: the scope timer and the timing wrapper\<close>

text \<open>
  A shallow embedding of \<^verbatim>\<open>timing_practice.cpp\<close>: the struct \<^verbatim>\<open>Timing\<close>, whose
  constructor and destructor read the clock, the two overloads of \<^verbatim>\<open>timeit\<close>, and the
  three mock database calls.

  What the program does to its environment is made explicit: a function that prints,
  sleeps or reads the clock takes the world and returns the new one. A callable that may
  throw returns \<open>Inl e\<close> for the exception \<open>e\<close> and \<open>Inr r\<close> for the value \<open>r\<close>,
  together with the world as it left it.
\<close>

subsection \<open>The world\<close>

text \<open>
  \<^item> \<open>cout\<close>: the characters written to \<^verbatim>\<open>std::cout\<close> so far.
  \<^item> \<open>clock\<close>: the tick count of \<^verbatim>\<open>std::chrono::high_resolution_clock\<close>. A tick is a
    nanosecond, as in libstdc++ and libc++ (the period is implementation-defined).
  \<^item> \<open>steps\<close>: what the environment adds to the clock before each of the coming
    readings: the time that passed since the last event, or an adjustment of the clock.
    The C++ standard does not require \<^verbatim>\<open>high_resolution_clock\<close> to be steady, so a step
    may be negative; on a monotonic clock every step is non-negative.
  \<^item> \<open>calls\<close>: a ghost counter, with no counterpart in the source: the number of
    call expressions \<^verbatim>\<open>func(std::forward<Args>(args)...)\<close> evaluated so far.
\<close>

record world =
  cout :: string
  clock :: int
  steps :: "int list"
  calls :: nat

text \<open>\<^verbatim>\<open>std::chrono::high_resolution_clock::now()\<close>\<close>

definition now :: "'m world_scheme \<Rightarrow> int \<times> 'm world_scheme" where
  "now w =
     (case steps w of
        [] \<Rightarrow> (clock w, w)
      | d # ds \<Rightarrow> (clock w + d, w\<lparr>clock := clock w + d, steps := ds\<rparr>))"

text \<open>
  \<^verbatim>\<open>std::this_thread::sleep_for(d)\<close>, with \<open>d\<close> in ticks. The thread is blocked for at
  least \<open>d\<close>; what it is blocked for beyond \<open>d\<close> is part of the next step of the clock.
  With a duration that is zero or negative the call returns at once.
\<close>

definition sleep_for :: "int \<Rightarrow> 'm world_scheme \<Rightarrow> 'm world_scheme" where
  "sleep_for d w = (if d \<le> 0 then w else w\<lparr>clock := clock w + d\<rparr>)"

text \<open>\<^verbatim>\<open>std::endl\<close> writes a line feed (and flushes, which the model does not show).\<close>

definition endl :: string where
  "endl = [CHR 0x0A]"

text \<open>\<^verbatim>\<open>std::cout << s\<close>\<close>

definition put :: "string \<Rightarrow> 'm world_scheme \<Rightarrow> 'm world_scheme" where
  "put s w = w\<lparr>cout := cout w @ s\<rparr>"

text \<open>The call expression \<^verbatim>\<open>func(std::forward<Args>(args)...)\<close>; it counts itself.\<close>

definition invoke ::
  "('a \<Rightarrow> 'm world_scheme \<Rightarrow> ('e + 'r) \<times> 'm world_scheme) \<Rightarrow> 'a \<Rightarrow> 'm world_scheme \<Rightarrow>
   ('e + 'r) \<times> 'm world_scheme" where
  "invoke func args w = func args (w\<lparr>calls := Suc (calls w)\<rparr>)"

subsection \<open>Printing an integer\<close>

text \<open>\<^verbatim>\<open>std::cout << n\<close> for a signed integer: decimal digits, a minus sign if negative.\<close>

fun digits :: "nat \<Rightarrow> string" where
  "digits n =
     (if n < 10 then [''0123456789'' ! n]
      else digits (n div 10) @ [''0123456789'' ! (n mod 10)])"

declare digits.simps [simp del]

definition show_int :: "int \<Rightarrow> string" where
  "show_int i = (if i < 0 then CHR ''-'' # digits (nat (- i)) else digits (nat i))"

subsection \<open>Floating-point durations\<close>

text \<open>
  \<^verbatim>\<open>std::chrono::duration<float>\<close> and \<^verbatim>\<open>std::chrono::duration<double>\<close> count seconds
  in IEEE 754 binary32 and binary64. A finite floating-point value is modelled by the
  rational number it denotes, and an operation by the exact operation followed by
  rounding to nearest, ties to even, at precision \<open>p\<close> (24 bits for \<^verbatim>\<open>float\<close>, 53 for
  \<^verbatim>\<open>double\<close>). The exponent range is not modelled: the values of this program, between
  \<open>10\<^sup>-\<^sup>9\<close> and \<open>10\<^sup>1\<^sup>9\<close> in magnitude, are far from overflow and from the subnormal numbers.
\<close>

definition float_prec :: nat where
  "float_prec = 24"

definition double_prec :: nat where
  "double_prec = 53"

definition pow2 :: "int \<Rightarrow> rat" where
  "pow2 e = (if 0 \<le> e then 2 ^ nat e else 1 / 2 ^ nat (- e))"

text \<open>The binary exponent of a positive \<open>x\<close>: the \<open>e\<close> with \<open>2\<^sup>e \<le> x < 2\<^sup>e\<^sup>+\<^sup>1\<close>.\<close>

definition ilog2 :: "rat \<Rightarrow> int" where
  "ilog2 x = (if 1 \<le> x then bitlen \<lfloor>x\<rfloor> - 1 else - bitlen (\<lceil>1 / x\<rceil> - 1))"

definition round_half_even :: "rat \<Rightarrow> int" where
  "round_half_even x =
     (let n = \<lfloor>x\<rfloor>; r = x - of_int n
      in if r < 1 / 2 then n else if 1 / 2 < r then n + 1 else if even n then n else n + 1)"

text \<open>Rounding to \<open>p\<close> significant bits.\<close>

definition fl :: "nat \<Rightarrow> rat \<Rightarrow> rat" where
  "fl p x =
     (if x = 0 then 0
      else let e = ilog2 \<bar>x\<bar> - (int p - 1)
           in of_int (round_half_even (x / pow2 e)) * pow2 e)"

text \<open>The conversion of a floating-point value to an integer truncates toward zero.\<close>

definition trunc_zero :: "rat \<Rightarrow> int" where
  "trunc_zero x = (if 0 \<le> x then \<lfloor>x\<rfloor> else \<lceil>x\<rceil>)"

text \<open>
  \<^verbatim>\<open>std::chrono::duration<F> duration = end - start\<close>, for a floating-point \<^verbatim>\<open>F\<close> of
  precision \<open>p\<close>: the tick count, a 64-bit integer, is converted to \<^verbatim>\<open>F\<close> and divided by
  \<open>10\<^sup>9\<close>, the number of ticks in a second.
\<close>

definition seconds_of_ticks :: "nat \<Rightarrow> int \<Rightarrow> rat" where
  "seconds_of_ticks p n = fl p (fl p (of_int n) / 1000000000)"

text \<open>
  \<^verbatim>\<open>std::chrono::duration_cast<std::chrono::milliseconds>(duration)\<close>: the seconds are
  multiplied by 1000 in \<^verbatim>\<open>F\<close>, and the product is converted to a 64-bit integer.
\<close>

definition milliseconds_of_seconds :: "nat \<Rightarrow> rat \<Rightarrow> int" where
  "milliseconds_of_seconds p x = trunc_zero (fl p (x * 1000))"

subsection \<open>The scope timer\<close>

text \<open>
  \<^verbatim>\<open>struct Timing\<close>. The time points are tick counts (\<open>end_tp\<close> is the field
  \<^verbatim>\<open>end\<close>); \<open>duration\<close> is a \<^verbatim>\<open>duration<float>\<close>. The constructor assigns \<open>start\<close>
  only: \<open>end_tp\<close> is the epoch by default, and \<open>duration\<close>, not initialised in C++ and
  never read before the destructor writes it, is 0 here.
\<close>

record Timing =
  start :: int
  end_tp :: int
  duration :: rat

definition Timing_ctor :: "world \<Rightarrow> Timing \<times> world" where
  "Timing_ctor w =
     (let (t, w1) = now w
      in (\<lparr>start = t, end_tp = 0, duration = 0\<rparr>, w1))"

definition Timing_dtor :: "Timing \<Rightarrow> world \<Rightarrow> world" where
  "Timing_dtor this w =
     (let (t, w1) = now w;
          this1 = this\<lparr>end_tp := t\<rparr>;
          this2 = this1\<lparr>duration := seconds_of_ticks float_prec (end_tp this1 - start this1)\<rparr>;
          milliseconds = milliseconds_of_seconds float_prec (duration this2)
      in put (''function took '' @ show_int milliseconds @ '' ms'' @ endl) w1)"

text \<open>
  A block that declares \<^verbatim>\<open>Timing timing;\<close> first, as \<^verbatim>\<open>mockDatabaseCall\<close> does. The
  object lives until the block is left, by a return or by an exception that unwinds the
  stack, and its destructor runs then.
\<close>

definition Timing_scope :: "(world \<Rightarrow> ('e + 'r) \<times> world) \<Rightarrow> world \<Rightarrow> ('e + 'r) \<times> world" where
  "Timing_scope body w =
     (let (timing, w1) = Timing_ctor w;
          (res, w2) = body w1
      in (res, Timing_dtor timing w2))"

subsection \<open>The timing wrapper\<close>

text \<open>
  The two overloads of \<^verbatim>\<open>timeit\<close>: \<open>timeit_void\<close> is the one \<^verbatim>\<open>std::enable_if\<close> selects
  for a callable that returns \<^verbatim>\<open>void\<close>, \<open>timeit_value\<close> the other one, for a callable
  that returns an object (not a reference: that case is \<open>timeit_ref\<close> below). The arguments \<^verbatim>\<open>args...\<close> are one value \<open>args\<close>, a tuple. An exception leaves
  \<^verbatim>\<open>timeit\<close> at the call: the statements after it do not run. The local variables
  \<open>start\<close>, \<open>end_tp\<close> (the source's \<^verbatim>\<open>end\<close>) and \<open>duration\<close> are those of the source,
  not the fields of a \<open>Timing\<close>.
\<close>

definition timeit_void ::
  "('a \<Rightarrow> world \<Rightarrow> ('e + unit) \<times> world) \<Rightarrow> 'a \<Rightarrow> world \<Rightarrow> ('e + unit) \<times> world" where
  "timeit_void func args w =
     (let (start, w1) = now w;
          (res, w2) = invoke func args w1
      in case res of
           Inl e \<Rightarrow> (Inl e, w2)
         | Inr _ \<Rightarrow>
             (let (end_tp, w3) = now w2;
                  duration = seconds_of_ticks double_prec (end_tp - start);
                  milliseconds = milliseconds_of_seconds double_prec duration
              in (Inr (), put (''function took '' @ show_int milliseconds @ '' ms'' @ endl) w3)))"

definition timeit_value ::
  "('a \<Rightarrow> world \<Rightarrow> ('e + 'r) \<times> world) \<Rightarrow> 'a \<Rightarrow> world \<Rightarrow> ('e + 'r) \<times> world" where
  "timeit_value func args w =
     (let (start, w1) = now w;
          (res, w2) = invoke func args w1
      in case res of
           Inl e \<Rightarrow> (Inl e, w2)
         | Inr result \<Rightarrow>
             (let (end_tp, w3) = now w2;
                  duration = seconds_of_ticks double_prec (end_tp - start);
                  milliseconds = milliseconds_of_seconds double_prec duration
              in (Inr result,
                  put (''function took '' @ show_int milliseconds @ '' ms'' @ endl) w3)))"

subsection \<open>The timing wrapper of a callable that returns a reference\<close>

text \<open>
  The second overload is also the one selected for a callable whose call expression has
  a reference type \<^verbatim>\<open>T&\<close>. \<^verbatim>\<open>decltype\<close> keeps the reference, so \<^verbatim>\<open>timeit\<close> returns
  \<^verbatim>\<open>T&\<close>; \<^verbatim>\<open>auto\<close> drops it, so \<^verbatim>\<open>result\<close> is a local object of type \<^verbatim>\<open>T\<close>,
  initialised with a copy of the object the callable's reference refers to; and
  \<^verbatim>\<open>return result\<close> binds the returned reference to this local object, whose lifetime
  ends with the return.

  To follow references, the world is extended by the objects of type \<^verbatim>\<open>T\<close>: a
  reference is an address, and \<open>objects w ! a\<close> is \<open>Some v\<close> for a live object at
  address \<open>a\<close> that holds \<open>v\<close>, \<open>None\<close> for an object whose lifetime has ended. Reading
  through a reference to no live object is undefined behaviour: \<open>timeit_ref\<close> is \<open>None\<close>
  then.
\<close>

record 'v mworld = world +
  objects :: "'v option list"

definition deref :: "nat \<Rightarrow> 'v mworld \<Rightarrow> 'v option" where
  "deref a w = (if a < length (objects w) then objects w ! a else None)"

definition alloc :: "'v \<Rightarrow> 'v mworld \<Rightarrow> nat \<times> 'v mworld" where
  "alloc v w = (length (objects w), w\<lparr>objects := objects w @ [Some v]\<rparr>)"

definition release :: "nat \<Rightarrow> 'v mworld \<Rightarrow> 'v mworld" where
  "release a w = w\<lparr>objects := (objects w)[a := None]\<rparr>"

definition timeit_ref ::
  "('a \<Rightarrow> 'v mworld \<Rightarrow> ('e + nat) \<times> 'v mworld) \<Rightarrow> 'a \<Rightarrow> 'v mworld \<Rightarrow>
   (('e + nat) \<times> 'v mworld) option" where
  "timeit_ref func args w =
     (let (start, w1) = now w;
          (res, w2) = invoke func args w1
      in case res of
           Inl e \<Rightarrow> Some (Inl e, w2)
         | Inr p \<Rightarrow>
             (case deref p w2 of
                None \<Rightarrow> None
              | Some v \<Rightarrow>
                  (let (result, w3) = alloc v w2;
                       (end_tp, w4) = now w3;
                       duration = seconds_of_ticks double_prec (end_tp - start);
                       milliseconds = milliseconds_of_seconds double_prec duration;
                       w5 = put (''function took '' @ show_int milliseconds @ '' ms'' @ endl) w4
                   in Some (Inr result, release result w5))))"

subsection \<open>The mock database calls and \<^verbatim>\<open>main\<close>\<close>

text \<open>\<^verbatim>\<open>1s\<close> is a second: \<open>10\<^sup>9\<close> ticks. None of the three throws.\<close>

definition mockDatabaseCall :: "unit \<Rightarrow> world \<Rightarrow> ('e + unit) \<times> world" where
  "mockDatabaseCall u =
     Timing_scope
       (\<lambda>w. let w1 = put (''Starting the mock database call'' @ endl) w;
                w2 = sleep_for 1000000000 w1;
                w3 = put (''Ending the mock database call'' @ endl) w2
            in (Inr (), w3))"

definition anotherMockDatabaseCall :: "unit \<Rightarrow> world \<Rightarrow> ('e + unit) \<times> world" where
  "anotherMockDatabaseCall u w =
     (let w1 = put (''Starting the mock database call'' @ endl) w;
          w2 = sleep_for 1000000000 w1;
          w3 = put (''Ending the mock database call'' @ endl) w2
      in (Inr (), w3))"

definition yetAnotherMockDatabaseCall :: "unit \<Rightarrow> world \<Rightarrow> ('e + int) \<times> world" where
  "yetAnotherMockDatabaseCall u w =
     (let w1 = put (''Starting the mock database call'' @ endl) w;
          w2 = sleep_for 1000000000 w1;
          w3 = put (''Ending the mock database call'' @ endl) w2
      in (Inr 10, w3))"

text \<open>
  \<^verbatim>\<open>main\<close> runs the three in order. A call statement is not a call through \<^verbatim>\<open>timeit\<close>,
  so the first does not count in \<open>calls\<close>.
\<close>

definition main :: "world \<Rightarrow> world" where
  "main w =
     (let (r1 :: unit + unit, w1) = mockDatabaseCall () w;
          (r2 :: unit + unit, w2) = timeit_void anotherMockDatabaseCall () w1;
          (r3 :: unit + int, w3) = timeit_value yetAnotherMockDatabaseCall () w2
      in w3)"

subsection \<open>Concrete inputs\<close>

text \<open>
  A world in which nothing has happened yet and the clock, at 0, only moves when the
  program sleeps; and two callables that throw the exception \<open>''connection lost''\<close> after
  their first line of output, one for each overload of \<^verbatim>\<open>timeit\<close>.
\<close>

definition w0 :: world where
  "w0 = \<lparr>cout = [], clock = 0, steps = [], calls = 0\<rparr>"

definition failing :: "unit \<Rightarrow> world \<Rightarrow> (string + int) \<times> world" where
  "failing u w = (Inl ''connection lost'', put (''Starting the mock database call'' @ endl) w)"

definition failing_void :: "unit \<Rightarrow> world \<Rightarrow> (string + unit) \<times> world" where
  "failing_void u w = (Inl ''connection lost'', put (''Starting the mock database call'' @ endl) w)"

text \<open>
  A callable that returns a reference to the object at address 0, as
  \<^verbatim>\<open>int& getCounter() { return counter; }\<close> does for a global \<^verbatim>\<open>int counter = 10;\<close>,
  and a world in which this object is the only one.
\<close>

definition getCounter :: "unit \<Rightarrow> int mworld \<Rightarrow> (unit + nat) \<times> int mworld" where
  "getCounter u w = (Inr 0, w)"

definition m0 :: "int mworld" where
  "m0 = \<lparr>cout = [], clock = 0, steps = [], calls = 0, objects = [Some 10]\<rparr>"

text \<open>A callable that sleeps for \<open>d\<close> ticks and returns.\<close>

definition nap :: "int \<Rightarrow> unit \<Rightarrow> world \<Rightarrow> ('e + unit) \<times> world" where
  "nap d u w = (Inr (), sleep_for d w)"

text \<open>
  Statements in sequence, where an exception of the first skips the second; and two
  nested blocks, each with its own scope timer:
  \<^verbatim>\<open>{ Timing outer; pre; { Timing inner; body; } post; }\<close>
\<close>

definition andThen ::
  "(world \<Rightarrow> ('e + 'a) \<times> world) \<Rightarrow> (world \<Rightarrow> ('e + 'b) \<times> world) \<Rightarrow> world \<Rightarrow> ('e + 'b) \<times> world" where
  "andThen s1 s2 w =
     (let (r, w1) = s1 w
      in case r of Inl e \<Rightarrow> (Inl e, w1) | Inr _ \<Rightarrow> s2 w1)"

definition nested_scopes ::
  "(world \<Rightarrow> ('e + 'a) \<times> world) \<Rightarrow> (world \<Rightarrow> ('e + 'b) \<times> world) \<Rightarrow>
   (world \<Rightarrow> ('e + 'c) \<times> world) \<Rightarrow> world \<Rightarrow> ('e + 'c) \<times> world" where
  "nested_scopes pre body post = Timing_scope (andThen pre (andThen (Timing_scope body) post))"

section \<open>Basic facts\<close>

lemma now_cout: "cout (snd (now w)) = cout w"
  by (simp add: now_def split: list.splits)

lemma now_calls: "calls (snd (now w)) = calls w"
  by (simp add: now_def split: list.splits)

lemma put_cout: "cout (put s w) = cout w @ s"
  by (simp add: put_def)

lemma put_calls: "calls (put s w) = calls w"
  by (simp add: put_def)

lemma digits_chars: "set (digits n) \<subseteq> set ''0123456789''"
proof (induction n rule: digits.induct)
  case (1 n)
  have m: "''0123456789'' ! k \<in> set ''0123456789''" if "k < 10" for k
    using that by (intro nth_mem) simp
  show ?case
  proof (cases "n < 10")
    case True
    then show ?thesis using m [of n] by (subst digits.simps) simp
  next
    case False
    have "n mod 10 < 10" by simp
    with False 1 m [of "n mod 10"] show ?thesis
      by (subst digits.simps) simp
  qed
qed

lemma show_int_no_newline: "CHR 0x0A \<notin> set (show_int i)"
  using digits_chars [of "nat i"] digits_chars [of "nat (- i)"]
  by (auto simp: show_int_def)

lemma report_one_line:
  "count_list (''function took '' @ show_int i @ '' ms'' @ endl) (CHR 0x0A) = 1"
  using show_int_no_newline [of i] by (simp add: endl_def count_list_0_iff)

lemma now_fst_clock: "fst (now w) = clock (snd (now w))"
  by (simp add: now_def split: list.splits)

lemma now_steps: "steps (snd (now w)) = tl (steps w)"
  by (simp add: now_def split: list.splits)

lemma now_monotonic: "list_all (\<lambda>d. 0 \<le> d) (steps w) \<Longrightarrow> clock w \<le> fst (now w)"
  by (cases "steps w") (simp_all add: now_def)

lemma list_all_tl: "list_all P xs \<Longrightarrow> list_all P (tl xs)"
  by (cases xs) simp_all

lemma digits_small: "n < 10 \<Longrightarrow> digits n = [''0123456789'' ! n]"
  by (subst digits.simps) simp

lemma digits_step: "10 \<le> n \<Longrightarrow> digits n = digits (n div 10) @ [''0123456789'' ! (n mod 10)]"
  by (subst digits.simps) simp

lemma show_int_minus: "0 < i \<Longrightarrow> show_int (- i) = CHR ''-'' # show_int i"
  by (simp add: show_int_def)

section \<open>Rounding to a floating-point format\<close>

text \<open>Powers of two, the binary exponent, and rounding to the nearest integer.\<close>

lemma pow2_powi: "pow2 e = 2 powi e"
  by (simp add: pow2_def power_int_def inverse_eq_divide power_one_over)

lemma pow2_pos: "0 < pow2 e"
  by (simp add: pow2_def)

lemma pow2_add: "pow2 (a + b) = pow2 a * pow2 b"
  by (simp add: pow2_powi power_int_add)

lemma pow2_nat: "pow2 (int n) = 2 ^ n"
  by (simp add: pow2_def)

lemma pow2_mono: "a \<le> b \<Longrightarrow> pow2 a \<le> pow2 b"
  by (simp add: pow2_powi power_int_increasing)

lemma pow2_less_imp: "pow2 a < pow2 b \<Longrightarrow> a < b"
  using pow2_mono [of b a] by (cases "a < b") auto

lemma ilog2_bounds:
  assumes "0 < x"
  shows "pow2 (ilog2 x) \<le> x" and "x < pow2 (ilog2 x + 1)"
proof -
  show "pow2 (ilog2 x) \<le> x"
  proof (cases "1 \<le> x")
    case True
    then have n: "0 < \<lfloor>x\<rfloor>" by linarith
    from bitlen_bounds [OF n] have "2 ^ nat (bitlen \<lfloor>x\<rfloor> - 1) \<le> \<lfloor>x\<rfloor>" by simp
    then have "(of_int (2 ^ nat (bitlen \<lfloor>x\<rfloor> - 1)) :: rat) \<le> of_int \<lfloor>x\<rfloor>"
      by (simp only: of_int_le_iff)
    also have "\<dots> \<le> x" by simp
    finally have "(2 :: rat) ^ nat (bitlen \<lfloor>x\<rfloor> - 1) \<le> x" by simp
    moreover have "1 \<le> bitlen \<lfloor>x\<rfloor>"
      using n bitlen_eq_zero_iff [of "\<lfloor>x\<rfloor>"] bitlen_nonneg [of "\<lfloor>x\<rfloor>"] by linarith
    ultimately show ?thesis using True by (simp add: ilog2_def pow2_def)
  next
    case False
    with assms have y: "1 < 1 / x" by simp
    let ?m = "\<lceil>1 / x\<rceil>"
    from y have m: "0 < ?m - 1" by linarith
    from bitlen_bounds [OF m] have "?m - 1 < 2 ^ nat (bitlen (?m - 1))" by simp
    then have "?m \<le> 2 ^ nat (bitlen (?m - 1))" by linarith
    then have "(of_int ?m :: rat) \<le> of_int (2 ^ nat (bitlen (?m - 1)))"
      by (simp only: of_int_le_iff)
    with le_of_int_ceiling [of "1 / x"]
    have "1 / x \<le> of_int (2 ^ nat (bitlen (?m - 1)))"
      by (rule order_trans)
    then have "1 / x \<le> 2 ^ nat (bitlen (?m - 1))"
      by simp
    then have "1 / 2 ^ nat (bitlen (?m - 1)) \<le> x"
      using assms by (simp add: field_simps)
    moreover have "1 \<le> bitlen (?m - 1)"
      using m bitlen_eq_zero_iff [of "?m - 1"] bitlen_nonneg [of "?m - 1"] by linarith
    ultimately show ?thesis using False by (simp add: ilog2_def pow2_def)
  qed
  show "x < pow2 (ilog2 x + 1)"
  proof (cases "1 \<le> x")
    case True
    then have n: "0 < \<lfloor>x\<rfloor>" by linarith
    from bitlen_bounds [OF n] have "\<lfloor>x\<rfloor> + 1 \<le> 2 ^ nat (bitlen \<lfloor>x\<rfloor>)" by simp
    then have "(of_int (\<lfloor>x\<rfloor> + 1) :: rat) \<le> of_int (2 ^ nat (bitlen \<lfloor>x\<rfloor>))"
      by (simp only: of_int_le_iff)
    moreover have "x < of_int (\<lfloor>x\<rfloor> + 1)" by linarith
    ultimately have "x < 2 ^ nat (bitlen \<lfloor>x\<rfloor>)" by simp
    moreover have "0 \<le> bitlen \<lfloor>x\<rfloor>" by (rule bitlen_nonneg)
    ultimately show ?thesis using True by (simp add: ilog2_def pow2_def)
  next
    case False
    with assms have y: "1 < 1 / x" by simp
    let ?m = "\<lceil>1 / x\<rceil>"
    let ?k = "bitlen (?m - 1)"
    from y have m: "0 < ?m - 1" by linarith
    have k: "1 \<le> ?k"
      using m bitlen_eq_zero_iff [of "?m - 1"] bitlen_nonneg [of "?m - 1"] by linarith
    from bitlen_bounds [OF m] have "2 ^ nat (?k - 1) \<le> ?m - 1" by simp
    then have "(of_int (2 ^ nat (?k - 1)) :: rat) \<le> of_int (?m - 1)"
      by (simp only: of_int_le_iff)
    moreover have "of_int (?m - 1) < 1 / x" by linarith
    ultimately have "2 ^ nat (?k - 1) < 1 / x" by simp
    then have "x < 1 / 2 ^ nat (?k - 1)"
      using assms by (simp add: field_simps)
    moreover have "pow2 (- ?k + 1) = 1 / 2 ^ nat (?k - 1)"
      using k by (auto simp: pow2_def)
    ultimately show ?thesis using False by (simp add: ilog2_def)
  qed
qed

lemma rhe_floor_le: "\<lfloor>x\<rfloor> \<le> round_half_even x"
  by (simp add: round_half_even_def Let_def)

lemma rhe_le_floor: "round_half_even x \<le> \<lfloor>x\<rfloor> + 1"
  by (simp add: round_half_even_def Let_def)

lemma rhe_error: "\<bar>of_int (round_half_even x) - x\<bar> \<le> 1 / 2"
proof -
  have "of_int \<lfloor>x\<rfloor> \<le> x" "x < of_int \<lfloor>x\<rfloor> + 1" by linarith+
  then show ?thesis
    by (auto simp: round_half_even_def Let_def)
qed

lemma rhe_of_int: "round_half_even (of_int k) = k"
  by (simp add: round_half_even_def)

lemma rhe_mono:
  assumes "a \<le> b"
  shows "round_half_even a \<le> round_half_even b"
proof (cases "\<lfloor>a\<rfloor> < \<lfloor>b\<rfloor>")
  case True
  then show ?thesis
    using rhe_le_floor [of a] rhe_floor_le [of b] by linarith
next
  case False
  with assms have eq: "\<lfloor>a\<rfloor> = \<lfloor>b\<rfloor>"
    using floor_mono [of a b] by linarith
  with assms show ?thesis
    by (auto simp: round_half_even_def Let_def)
qed

lemma fl_zero: "fl p 0 = 0"
  by (simp add: fl_def)

lemma fl_nonneg:
  assumes "0 \<le> x"
  shows "0 \<le> fl p x"
proof (cases "x = 0")
  case True
  then show ?thesis by (simp add: fl_def)
next
  case False
  let ?e = "ilog2 \<bar>x\<bar> - (int p - 1)"
  have "0 \<le> x / pow2 ?e"
    using assms pow2_pos [of ?e] by simp
  then have "round_half_even 0 \<le> round_half_even (x / pow2 ?e)"
    by (rule rhe_mono)
  then have "0 \<le> round_half_even (x / pow2 ?e)"
    using rhe_of_int [of 0] by simp
  then show ?thesis
    using False pow2_pos [of ?e] by (simp add: fl_def Let_def)
qed

lemma fl_error:
  assumes "1 \<le> p"
  shows "\<bar>fl p x - x\<bar> \<le> \<bar>x\<bar> / 2 ^ p"
proof (cases "x = 0")
  case True
  then show ?thesis by (simp add: fl_def)
next
  case False
  let ?L = "ilog2 \<bar>x\<bar>"
  let ?e = "?L - (int p - 1)"
  let ?u = "pow2 ?e"
  have u: "0 < ?u" by (rule pow2_pos)
  have "fl p x - x = (of_int (round_half_even (x / ?u)) - x / ?u) * ?u"
    using False u by (simp add: fl_def Let_def field_simps)
  then have "\<bar>fl p x - x\<bar> = \<bar>of_int (round_half_even (x / ?u)) - x / ?u\<bar> * ?u"
    using u by (simp add: abs_mult)
  also have "\<dots> \<le> (1 / 2) * ?u"
    using rhe_error [of "x / ?u"] u by (intro mult_right_mono) simp_all
  finally have 1: "\<bar>fl p x - x\<bar> \<le> ?u / 2" by simp
  have "pow2 ?L = pow2 (?e + int p - 1)" by simp
  have "?L = ?e + int (p - 1)" using assms by simp
  then have "pow2 ?L = ?u * 2 ^ (p - 1)"
    by (metis pow2_add pow2_nat)
  moreover have "pow2 ?L \<le> \<bar>x\<bar>"
    using False by (intro ilog2_bounds) simp
  ultimately have "?u * 2 ^ (p - 1) \<le> \<bar>x\<bar>" by simp
  then have "?u \<le> \<bar>x\<bar> / 2 ^ (p - 1)"
    by (simp add: field_simps)
  then have "?u / 2 \<le> \<bar>x\<bar> / 2 ^ (p - 1) / 2" by simp
  also have "\<dots> = \<bar>x\<bar> / 2 ^ p"
    using assms by (cases p) simp_all
  finally show ?thesis using 1 by linarith
qed

lemma fl_exact:
  assumes "x / pow2 (ilog2 \<bar>x\<bar> - (int p - 1)) = of_int k"
  shows "fl p x = x"
proof (cases "x = 0")
  case True
  then show ?thesis by (simp add: fl_def)
next
  case False
  let ?u = "pow2 (ilog2 \<bar>x\<bar> - (int p - 1))"
  have u: "0 < ?u" by (rule pow2_pos)
  have "fl p x = of_int (round_half_even (of_int k)) * ?u"
    using False assms by (simp add: fl_def Let_def)
  also have "\<dots> = of_int k * ?u" by (simp only: rhe_of_int)
  also have "\<dots> = x" using assms [symmetric] u by simp
  finally show ?thesis .
qed

lemma pow2_one: "pow2 1 = 2"
  by (simp add: pow2_def)

lemma pow2_le_imp:
  assumes "pow2 a \<le> pow2 b"
  shows "a \<le> b"
proof (rule ccontr)
  assume "\<not> a \<le> b"
  then have "b + 1 \<le> a" by simp
  then have "pow2 (b + 1) \<le> pow2 a" by (rule pow2_mono)
  moreover have "pow2 (b + 1) = pow2 b * 2" by (simp only: pow2_add pow2_one)
  ultimately show False using assms pow2_pos [of b] by linarith
qed

lemma ilog2_le:
  assumes "0 < x" and "x \<le> pow2 b"
  shows "ilog2 x \<le> b"
  using ilog2_bounds(1) [OF assms(1)] assms(2) pow2_le_imp [of "ilog2 x" b] by linarith

lemma fl_of_int:
  assumes "1 \<le> p" and "\<bar>n\<bar> \<le> 2 ^ p"
  shows "fl p (of_int n) = of_int n"
proof (cases "n = 0")
  case True
  then show ?thesis by (simp add: fl_def)
next
  case False
  let ?x = "of_int n :: rat"
  let ?L = "ilog2 \<bar>?x\<bar>"
  let ?e = "?L - (int p - 1)"
  have pos: "0 < \<bar>?x\<bar>" using False by simp
  have "\<bar>?x\<bar> = of_int \<bar>n\<bar>" by simp
  also have "\<dots> \<le> of_int (2 ^ p)" using assms(2) by (simp only: of_int_le_iff)
  also have "\<dots> = pow2 (int p)" by (simp add: pow2_nat)
  finally have up: "\<bar>?x\<bar> \<le> pow2 (int p)" .
  then have L: "?L \<le> int p" using pos by (intro ilog2_le)
  show ?thesis
  proof (cases "?e \<le> 0")
    case True
    then have "pow2 ?e = 1 / 2 ^ nat (- ?e)"
      by (cases "?e = 0") (simp_all add: pow2_def)
    then have "?x / pow2 ?e = of_int (n * 2 ^ nat (- ?e))" by simp
    then show ?thesis by (rule fl_exact)
  next
    case False
    with L have e1: "?e = 1" by linarith
    then have Lp: "?L = int p" by linarith
    have "pow2 ?L \<le> \<bar>?x\<bar>" using pos by (rule ilog2_bounds)
    with up Lp have "\<bar>?x\<bar> = pow2 (int p)" by simp
    then have "\<bar>?x\<bar> = 2 ^ p" by (simp add: pow2_nat)
    then have "\<bar>?x\<bar> = 2 * 2 ^ (p - 1)" using assms(1) by (cases p) simp_all
    then have "?x = 2 * 2 ^ (p - 1) \<or> ?x = - (2 * 2 ^ (p - 1))" by linarith
    then have "?x / 2 = of_int (2 ^ (p - 1)) \<or> ?x / 2 = of_int (- (2 ^ (p - 1)))"
      by auto
    moreover have "pow2 ?e = 2" using e1 by (simp only: pow2_one)
    ultimately have "\<exists>k. ?x / pow2 ?e = of_int k" by metis
    then show ?thesis using fl_exact by blast
  qed
qed

lemma fl_mono:
  assumes p: "1 \<le> p" and x: "0 \<le> x" and xy: "x \<le> y"
  shows "fl p x \<le> fl p y"
proof (cases "x = 0")
  case True
  then show ?thesis using fl_nonneg [of y p] x xy by (simp add: fl_def)
next
  case False
  with x xy have xp: "0 < x" and yp: "0 < y" by simp_all
  let ?Lx = "ilog2 x" and ?Ly = "ilog2 y"
  let ?ex = "?Lx - (int p - 1)" and ?ey = "?Ly - (int p - 1)"
  have flx: "fl p x = of_int (round_half_even (x / pow2 ?ex)) * pow2 ?ex"
    using xp by (simp add: fl_def Let_def)
  have fly: "fl p y = of_int (round_half_even (y / pow2 ?ey)) * pow2 ?ey"
    using yp by (simp add: fl_def Let_def)
  have "pow2 ?Lx \<le> x" using xp by (rule ilog2_bounds)
  also have "x \<le> y" by (rule xy)
  also have "y < pow2 (?Ly + 1)" using yp by (rule ilog2_bounds)
  finally have "?Lx < ?Ly + 1" by (rule pow2_less_imp)
  then consider "?Lx = ?Ly" | "?Lx + 1 \<le> ?Ly" by linarith
  then show ?thesis
  proof cases
    case 1
    have "x / pow2 ?ex \<le> y / pow2 ?ex"
      using xy pow2_pos [of ?ex] by (simp add: divide_right_mono)
    then have "round_half_even (x / pow2 ?ex) \<le> round_half_even (y / pow2 ?ex)"
      by (rule rhe_mono)
    then have "(of_int (round_half_even (x / pow2 ?ex)) :: rat) \<le> of_int (round_half_even (y / pow2 ?ex))"
      by (simp only: of_int_le_iff)
    then have "of_int (round_half_even (x / pow2 ?ex)) * pow2 ?ex
             \<le> of_int (round_half_even (y / pow2 ?ex)) * pow2 ?ex"
      using pow2_pos [of ?ex] by (intro mult_right_mono) simp_all
    then show ?thesis using 1 flx fly by simp
  next
    case 2
    have "int p = int (p - 1) + 1" using p by simp
    have a: "pow2 (?Lx + 1) = 2 ^ p * pow2 ?ex"
    proof -
      have "?Lx + 1 = int p + ?ex" by simp
      then show ?thesis by (metis pow2_add pow2_nat)
    qed
    have b: "pow2 ?Ly = 2 ^ (p - 1) * pow2 ?ey"
    proof -
      have "?Ly = int (p - 1) + ?ey" using p by simp
      then show ?thesis by (metis pow2_add pow2_nat)
    qed
    have "x < pow2 (?Lx + 1)" using xp by (rule ilog2_bounds)
    then have "x / pow2 ?ex \<le> of_int (2 ^ p)"
      using a pow2_pos [of ?ex] by (simp add: field_simps)
    then have "round_half_even (x / pow2 ?ex) \<le> round_half_even (of_int (2 ^ p))"
      by (rule rhe_mono)
    then have "round_half_even (x / pow2 ?ex) \<le> 2 ^ p"
      by (simp only: rhe_of_int)
    then have "(of_int (round_half_even (x / pow2 ?ex)) :: rat) \<le> of_int (2 ^ p)"
      by (simp only: of_int_le_iff)
    then have "of_int (round_half_even (x / pow2 ?ex)) * pow2 ?ex \<le> of_int (2 ^ p) * pow2 ?ex"
      using pow2_pos [of ?ex] by (intro mult_right_mono) simp_all
    then have 1: "fl p x \<le> pow2 (?Lx + 1)" using flx a by simp
    have "pow2 ?Ly \<le> y" using yp by (rule ilog2_bounds)
    then have "of_int (2 ^ (p - 1)) \<le> y / pow2 ?ey"
      using b pow2_pos [of ?ey] by (simp add: field_simps)
    then have "round_half_even (of_int (2 ^ (p - 1))) \<le> round_half_even (y / pow2 ?ey)"
      by (rule rhe_mono)
    then have "2 ^ (p - 1) \<le> round_half_even (y / pow2 ?ey)"
      by (simp only: rhe_of_int)
    then have "(of_int (2 ^ (p - 1)) :: rat) \<le> of_int (round_half_even (y / pow2 ?ey))"
      by (simp only: of_int_le_iff)
    then have "of_int (2 ^ (p - 1)) * pow2 ?ey \<le> of_int (round_half_even (y / pow2 ?ey)) * pow2 ?ey"
      using pow2_pos [of ?ey] by (intro mult_right_mono) simp_all
    then have 3: "pow2 ?Ly \<le> fl p y" using fly b by simp
    have "pow2 (?Lx + 1) \<le> pow2 ?Ly" using 2 by (rule pow2_mono)
    with 1 3 show ?thesis by linarith
  qed
qed

section \<open>From ticks to milliseconds\<close>

lemma fl_rel:
  assumes "1 \<le> p" and "0 \<le> x"
  shows "(1 - 1 / 2 ^ p) * x \<le> fl p x" and "fl p x \<le> (1 + 1 / 2 ^ p) * x"
  using fl_error [OF assms(1), of x] assms(2) by (simp_all add: algebra_simps abs_le_iff)

lemma trunc_zero_nonneg: "0 \<le> x \<Longrightarrow> trunc_zero x = \<lfloor>x\<rfloor>"
  by (simp add: trunc_zero_def)

lemma seconds_nonneg: "0 \<le> n \<Longrightarrow> 0 \<le> seconds_of_ticks p n"
  by (simp add: seconds_of_ticks_def fl_nonneg)

lemma milliseconds_nonneg:
  assumes "0 \<le> n"
  shows "0 \<le> milliseconds_of_seconds p (seconds_of_ticks p n)"
proof -
  have "0 \<le> fl p (seconds_of_ticks p n * 1000)"
    using seconds_nonneg [OF assms, of p] by (intro fl_nonneg) simp
  then show ?thesis
    by (simp add: milliseconds_of_seconds_def trunc_zero_nonneg)
qed

lemma milliseconds_lower:
  assumes p: "1 \<le> p" and k: "0 \<le> k" and rep: "k * 1000000000 \<le> 2 ^ p"
    and n: "k * 1000000000 \<le> n"
  shows "1000 * k \<le> milliseconds_of_seconds p (seconds_of_ticks p n)"
proof -
  have r1: "\<bar>k * 1000000000\<bar> \<le> 2 ^ p" using k rep by simp
  have r2: "\<bar>k\<bar> \<le> 2 ^ p" using k rep by simp
  have r3: "\<bar>1000 * k\<bar> \<le> 2 ^ p" using k rep by simp
  have "(of_int (k * 1000000000) :: rat) \<le> of_int n"
    using n by (simp only: of_int_le_iff)
  moreover have "(0 :: rat) \<le> of_int (k * 1000000000)" using k by simp
  ultimately have "fl p (of_int (k * 1000000000)) \<le> fl p (of_int n)"
    using p by (intro fl_mono)
  then have "of_int (k * 1000000000) \<le> fl p (of_int n)"
    by (simp only: fl_of_int [OF p r1])
  then have "of_int k \<le> fl p (of_int n) / 1000000000"
    by simp
  moreover have "(0 :: rat) \<le> of_int k" using k by simp
  ultimately have "fl p (of_int k) \<le> fl p (fl p (of_int n) / 1000000000)"
    using p by (intro fl_mono)
  then have s: "of_int k \<le> seconds_of_ticks p n"
    by (simp only: fl_of_int [OF p r2] seconds_of_ticks_def)
  then have "of_int (1000 * k) \<le> seconds_of_ticks p n * 1000"
    by simp
  moreover have "(0 :: rat) \<le> of_int (1000 * k)" using k by simp
  ultimately have "fl p (of_int (1000 * k)) \<le> fl p (seconds_of_ticks p n * 1000)"
    using p by (intro fl_mono)
  then have t: "of_int (1000 * k) \<le> fl p (seconds_of_ticks p n * 1000)"
    by (simp only: fl_of_int [OF p r3])
  moreover have "(0 :: rat) \<le> of_int (1000 * k)" using k by simp
  ultimately have "0 \<le> fl p (seconds_of_ticks p n * 1000)" by linarith
  then have "milliseconds_of_seconds p (seconds_of_ticks p n) = \<lfloor>fl p (seconds_of_ticks p n * 1000)\<rfloor>"
    by (simp add: milliseconds_of_seconds_def trunc_zero_nonneg)
  moreover have "1000 * k \<le> \<lfloor>fl p (seconds_of_ticks p n * 1000)\<rfloor>"
    using t by (simp only: le_floor_iff)
  ultimately show ?thesis by simp
qed

lemma cube_bounds:
  fixes u :: rat
  assumes "0 \<le> u" and "u \<le> 1 / 4"
  shows "(1 + u) * ((1 + u) * (1 + u)) \<le> 1 + 4 * u"
    and "1 - 4 * u \<le> (1 - u) * ((1 - u) * (1 - u))"
proof -
  have 1: "u * u \<le> u * (1 / 4)" using assms by (intro mult_left_mono) simp_all
  have 0: "0 \<le> u * u" using assms by simp
  have "u * u * u \<le> (u * (1 / 4)) * u" using 1 assms by (intro mult_right_mono) simp_all
  also have "\<dots> = (u * u) * (1 / 4)" by simp
  also have "\<dots> \<le> (u * (1 / 4)) * (1 / 4)" using 1 by (intro mult_right_mono) simp_all
  finally have 2: "u * u * u \<le> u / 16" by simp
  have 3: "0 \<le> u * u * u" using assms by simp
  have e1: "(1 + u) * ((1 + u) * (1 + u)) = 1 + 3 * u + 3 * (u * u) + u * u * u"
    by (simp add: algebra_simps)
  have e2: "(1 - u) * ((1 - u) * (1 - u)) = 1 - 3 * u + 3 * (u * u) - u * u * u"
    by (simp add: algebra_simps)
  show "(1 + u) * ((1 + u) * (1 + u)) \<le> 1 + 4 * u"
    unfolding e1 using 1 2 assms by linarith
  show "1 - 4 * u \<le> (1 - u) * ((1 - u) * (1 - u))"
    unfolding e2 using 0 2 assms by linarith
qed

lemma abs_from_bounds:
  fixes x m e :: rat
  shows "x \<le> (1 + e) * m \<Longrightarrow> (1 - e) * m \<le> x \<Longrightarrow> \<bar>x - m\<bar> \<le> e * m"
  by (simp add: abs_le_iff algebra_simps)

lemma milliseconds_error:
  assumes p: "2 \<le> p" and n: "0 \<le> n"
  shows "\<bar>fl p (seconds_of_ticks p n * 1000) - of_int n / 1000000\<bar>
           \<le> 4 / 2 ^ p * (of_int n / 1000000)"
proof -
  let ?u = "1 / 2 ^ p :: rat"
  let ?a = "of_int n :: rat"
  let ?x1 = "fl p ?a"
  let ?x2 = "fl p (?x1 / 1000000000)"
  let ?x3 = "fl p (?x2 * 1000)"
  let ?m = "?a / 1000000"
  have p1: "1 \<le> p" using p by simp
  have u0: "0 \<le> ?u" by simp
  have "(2 :: rat) ^ 2 \<le> 2 ^ p" using p by (intro power_increasing) simp_all
  then have u4: "?u \<le> 1 / 4" by (simp add: field_simps)
  have c: "0 \<le> 1 + ?u" using u0 by linarith
  have d: "0 \<le> 1 - ?u" using u4 by linarith
  have a0: "0 \<le> ?a" using n by simp
  have x10: "0 \<le> ?x1" using a0 by (rule fl_nonneg)
  have x20: "0 \<le> ?x2" using x10 by (intro fl_nonneg) simp
  have m0: "0 \<le> ?m" using a0 by simp
  \<comment> \<open>upper bounds\<close>
  have U1: "?x1 \<le> (1 + ?u) * ?a" using p1 a0 by (rule fl_rel)
  have "?x2 \<le> (1 + ?u) * (?x1 / 1000000000)" using p1 x10 by (intro fl_rel) simp_all
  also have "\<dots> \<le> (1 + ?u) * (((1 + ?u) * ?a) / 1000000000)"
    using U1 c by (intro mult_left_mono divide_right_mono) simp_all
  finally have U2: "?x2 \<le> (1 + ?u) * (((1 + ?u) * ?a) / 1000000000)" .
  have "?x3 \<le> (1 + ?u) * (?x2 * 1000)" using p1 x20 by (intro fl_rel) simp_all
  also have "\<dots> \<le> (1 + ?u) * (((1 + ?u) * (((1 + ?u) * ?a) / 1000000000)) * 1000)"
    using U2 c by (intro mult_left_mono mult_right_mono) simp_all
  also have "\<dots> = ((1 + ?u) * ((1 + ?u) * (1 + ?u))) * ?m" by simp
  also have "\<dots> \<le> (1 + 4 * ?u) * ?m"
    using cube_bounds(1) [OF u0 u4] m0 by (intro mult_right_mono)
  finally have U3: "?x3 \<le> (1 + 4 * ?u) * ?m" .
  \<comment> \<open>lower bounds\<close>
  have L1: "(1 - ?u) * ?a \<le> ?x1" using p1 a0 by (rule fl_rel)
  have "(1 - ?u) * (((1 - ?u) * ?a) / 1000000000) \<le> (1 - ?u) * (?x1 / 1000000000)"
    using L1 d by (intro mult_left_mono divide_right_mono) simp_all
  also have "\<dots> \<le> ?x2" using p1 x10 by (intro fl_rel) simp_all
  finally have L2: "(1 - ?u) * (((1 - ?u) * ?a) / 1000000000) \<le> ?x2" .
  have "(1 - 4 * ?u) * ?m \<le> ((1 - ?u) * ((1 - ?u) * (1 - ?u))) * ?m"
    using cube_bounds(2) [OF u0 u4] m0 by (intro mult_right_mono)
  also have "\<dots> = (1 - ?u) * (((1 - ?u) * (((1 - ?u) * ?a) / 1000000000)) * 1000)" by simp
  also have "\<dots> \<le> (1 - ?u) * (?x2 * 1000)"
    using L2 d by (intro mult_left_mono mult_right_mono) simp_all
  also have "\<dots> \<le> ?x3" using p1 x20 by (intro fl_rel) simp_all
  finally have L3: "(1 - 4 * ?u) * ?m \<le> ?x3" .
  have "\<bar>?x3 - ?m\<bar> \<le> (4 * ?u) * ?m"
    using U3 L3 by (rule abs_from_bounds)
  moreover have "4 * ?u = 4 / 2 ^ p" by simp
  ultimately show ?thesis by (simp only: seconds_of_ticks_def)
qed

lemma milliseconds_close:
  assumes p: "2 \<le> p" and n: "0 \<le> n" and small: "n < 2 ^ (p - 2) * 1000000"
  shows "\<bar>milliseconds_of_seconds p (seconds_of_ticks p n) - n div 1000000\<bar> \<le> 1"
proof -
  let ?x = "fl p (seconds_of_ticks p n * 1000)"
  let ?m = "of_int n / 1000000 :: rat"
  have x0: "0 \<le> ?x"
    using seconds_nonneg [OF n, of p] by (intro fl_nonneg) simp
  have "(of_int n :: rat) < of_int (2 ^ (p - 2) * 1000000)"
    using small by (simp only: of_int_less_iff)
  then have "?m < 2 ^ (p - 2)" by simp
  moreover have "(2 :: rat) ^ p = 4 * 2 ^ (p - 2)"
  proof -
    have "p = (p - 2) + 2" using p by simp
    then have "(2 :: rat) ^ p = 2 ^ (p - 2) * 2 ^ 2" by (metis power_add)
    then show ?thesis by simp
  qed
  ultimately have "4 / 2 ^ p * ?m < 1" by (simp add: field_simps)
  with milliseconds_error [OF p n] have "\<bar>?x - ?m\<bar> < 1" by linarith
  then have "?m - 1 < ?x" and "?x < ?m + 1" by linarith+
  then have "\<lfloor>?m\<rfloor> - 1 \<le> \<lfloor>?x\<rfloor>" and "\<lfloor>?x\<rfloor> \<le> \<lfloor>?m\<rfloor> + 1"
    by linarith+
  moreover have "\<lfloor>?m\<rfloor> = n div 1000000"
    using floor_divide_of_int_eq [of n 1000000, where ?'a = rat] by simp
  moreover have "milliseconds_of_seconds p (seconds_of_ticks p n) = \<lfloor>?x\<rfloor>"
    using x0 by (simp add: milliseconds_of_seconds_def trunc_zero_nonneg)
  ultimately show ?thesis by linarith
qed


lemma milliseconds_mono:
  assumes p: "1 \<le> p" and a: "0 \<le> a" and ab: "a \<le> b"
  shows "milliseconds_of_seconds p (seconds_of_ticks p a) \<le> milliseconds_of_seconds p (seconds_of_ticks p b)"
proof -
  have b: "0 \<le> b" using a ab by simp
  have "(of_int a :: rat) \<le> of_int b" using ab by (simp only: of_int_le_iff)
  moreover have "(0 :: rat) \<le> of_int a" using a by simp
  ultimately have 1: "fl p (of_int a) \<le> fl p (of_int b)" using p by (intro fl_mono)
  have "0 \<le> fl p (of_int a)" using a by (intro fl_nonneg) simp
  then have "0 \<le> fl p (of_int a) / 1000000000" by simp
  moreover have "fl p (of_int a) / 1000000000 \<le> fl p (of_int b) / 1000000000"
    using 1 by (simp add: divide_right_mono)
  ultimately have 2: "seconds_of_ticks p a \<le> seconds_of_ticks p b"
    unfolding seconds_of_ticks_def using p by (intro fl_mono)
  have "0 \<le> seconds_of_ticks p a * 1000" using seconds_nonneg [OF a, of p] by simp
  moreover have "seconds_of_ticks p a * 1000 \<le> seconds_of_ticks p b * 1000" using 2 by simp
  ultimately have 3: "fl p (seconds_of_ticks p a * 1000) \<le> fl p (seconds_of_ticks p b * 1000)"
    using p by (intro fl_mono)
  have "0 \<le> fl p (seconds_of_ticks p a * 1000)"
    using seconds_nonneg [OF a, of p] by (intro fl_nonneg) simp
  moreover have "0 \<le> fl p (seconds_of_ticks p b * 1000)"
    using seconds_nonneg [OF b, of p] by (intro fl_nonneg) simp
  ultimately show ?thesis
    using 3 by (simp add: milliseconds_of_seconds_def trunc_zero_nonneg floor_mono)
qed

section \<open>The report line\<close>

lemma show_1000: "show_int 1000 = ''1000''"
  by (simp add: show_int_def digits_step digits_small)

lemma show_1001: "show_int 1001 = ''1001''"
  by (simp add: show_int_def digits_step digits_small)

lemma show_2000: "show_int 2000 = ''2000''"
  by (simp add: show_int_def digits_step digits_small)

lemma show_minus_5000: "show_int (- 5000) = ''-5000''"
  by (simp add: show_int_minus show_int_def digits_step digits_small)

lemma show_minus_7000: "show_int (- 7000) = ''-7000''"
  by (simp add: show_int_minus show_int_def digits_step digits_small)

lemma ms_double_1001:
  "milliseconds_of_seconds double_prec (seconds_of_ticks double_prec 1001000000) = 1000"
  by code_simp

lemma ms_float_1000:
  "milliseconds_of_seconds float_prec (seconds_of_ticks float_prec 1000999990) = 1001"
  by code_simp

lemma Timing_dtor_cout:
  "cout (Timing_dtor this v) =
     cout v @ ''function took '' @
     show_int (milliseconds_of_seconds float_prec
       (seconds_of_ticks float_prec (fst (now v) - start this))) @ '' ms'' @ endl"
  by (simp add: Timing_dtor_def split_beta Let_def put_cout now_cout)

lemma timeit_value_cout:
  "invoke func args (snd (now w)) = (Inr r, w2) \<Longrightarrow>
   cout (snd (timeit_value func args w)) =
     cout w2 @ ''function took '' @
     show_int (milliseconds_of_seconds double_prec
       (seconds_of_ticks double_prec (fst (now w2) - fst (now w)))) @ '' ms'' @ endl"
  by (simp add: timeit_value_def split_beta Let_def put_cout now_cout)

lemma timeit_void_cout:
  "invoke proc args (snd (now w)) = (Inr (), w2) \<Longrightarrow>
   cout (snd (timeit_void proc args w)) =
     cout w2 @ ''function took '' @
     show_int (milliseconds_of_seconds double_prec
       (seconds_of_ticks double_prec (fst (now w2) - fst (now w)))) @ '' ms'' @ endl"
  by (simp add: timeit_void_def split_beta Let_def put_cout now_cout)

lemma show_int_nonneg: "0 \<le> i \<Longrightarrow> show_int i = digits (nat i)"
  by (simp add: show_int_def)

lemma report_digits:
  assumes "1 \<le> p" and "0 \<le> d"
  shows "show_int (milliseconds_of_seconds p (seconds_of_ticks p d)) =
         digits (nat (milliseconds_of_seconds p (seconds_of_ticks p d)))"
  using milliseconds_nonneg [OF assms(2), of p] by (rule show_int_nonneg)

lemma show_1: "show_int 1 = ''1''"
  by (simp add: show_int_def digits_step digits_small)

lemma ms_double_nap: "milliseconds_of_seconds double_prec (seconds_of_ticks double_prec 1500000) = 1"
  by code_simp

lemma milliseconds_after_sleep:
  assumes T: "0 \<le> T" "T < 2 ^ 63" and d: "T \<le> d"
  shows "0 \<le> milliseconds_of_seconds double_prec (seconds_of_ticks double_prec d)"
    and "T div 1000000 - 1 \<le> milliseconds_of_seconds double_prec (seconds_of_ticks double_prec d)"
    and "T mod 1000000000 = 0 \<and> T \<le> 2 ^ 53 \<longrightarrow>
         T div 1000000 \<le> milliseconds_of_seconds double_prec (seconds_of_ticks double_prec d)"
proof -
  let ?ms = "\<lambda>n. milliseconds_of_seconds double_prec (seconds_of_ticks double_prec n)"
  have d0: "0 \<le> d" using T d by simp
  show "0 \<le> ?ms d" using d0 by (rule milliseconds_nonneg)
  have "\<bar>?ms T - T div 1000000\<bar> \<le> 1"
    using T by (intro milliseconds_close) (simp_all add: double_prec_def)
  moreover have "?ms T \<le> ?ms d"
    using T(1) d by (intro milliseconds_mono) (simp_all add: double_prec_def)
  ultimately show "T div 1000000 - 1 \<le> ?ms d" by linarith
  show "T mod 1000000000 = 0 \<and> T \<le> 2 ^ 53 \<longrightarrow> T div 1000000 \<le> ?ms d"
  proof
    assume a: "T mod 1000000000 = 0 \<and> T \<le> 2 ^ 53"
    define k where "k = T div 1000000000"
    have Tk: "T = k * 1000000000"
      using a div_mult_mod_eq [of T 1000000000] by (simp add: k_def)
    have k0: "0 \<le> k" using T(1) by (simp add: k_def pos_imp_zdiv_nonneg_iff)
    have "1000 * k \<le> milliseconds_of_seconds double_prec (seconds_of_ticks double_prec d)"
      using k0 a d unfolding Tk by (intro milliseconds_lower) (simp_all add: double_prec_def)
    moreover have "T div 1000000 = 1000 * k" unfolding Tk by simp
    ultimately show "T div 1000000 \<le> ?ms d" by simp
  qed
qed

lemma ms_float_minus_5000:
  "milliseconds_of_seconds float_prec (seconds_of_ticks float_prec (- 5000000000)) = - 5000"
  by code_simp

lemma ms_float_minus_7000:
  "milliseconds_of_seconds float_prec (seconds_of_ticks float_prec (- 7000000000)) = - 7000"
  by code_simp

lemma ms_float_second: "milliseconds_of_seconds float_prec (seconds_of_ticks float_prec 1000000000) = 1000"
  by code_simp

lemma ms_float_2001: "milliseconds_of_seconds float_prec (seconds_of_ticks float_prec 2001000000) = 2000"
  by code_simp

lemma Timing_ctor_start: "start (fst (Timing_ctor w)) = fst (now w)"
  by (simp add: Timing_ctor_def split_beta)

lemma Timing_ctor_world: "snd (Timing_ctor w) = snd (now w)"
  by (simp add: Timing_ctor_def split_beta)


lemma show_0: "show_int 0 = ''0''"
  by (simp add: show_int_def digits_step digits_small)

lemma ms_float_0: "milliseconds_of_seconds float_prec (seconds_of_ticks float_prec 0) = 0"
  by code_simp

lemma ms_float_1: "milliseconds_of_seconds float_prec (seconds_of_ticks float_prec 1000000) = 1"
  by code_simp

lemma timeit_value_fst: "fst (timeit_value func args w) = fst (invoke func args (snd (now w)))"
  by (simp add: timeit_value_def split_beta Let_def split: sum.splits)

lemma now_snd: "snd (now w) = w\<lparr>clock := fst (now w), steps := tl (steps w)\<rparr>"
  by (cases "steps w") (simp_all add: now_def)


lemma ms_double_second:
  "milliseconds_of_seconds double_prec (seconds_of_ticks double_prec 1000000000) = 1000"
  by code_simp

text \<open>
  The run of \<^verbatim>\<open>main\<close> on a clock that only moves while the program sleeps: three
  times the two lines of a mock database call and a report of 1000 ms.
\<close>

lemma main_run:
  "cout (main w0) =
     ''Starting the mock database call'' @ endl @ ''Ending the mock database call'' @ endl @
     ''function took 1000 ms'' @ endl @
     ''Starting the mock database call'' @ endl @ ''Ending the mock database call'' @ endl @
     ''function took 1000 ms'' @ endl @
     ''Starting the mock database call'' @ endl @ ''Ending the mock database call'' @ endl @
     ''function took 1000 ms'' @ endl"
  by (simp add: main_def mockDatabaseCall_def Timing_scope_def Timing_ctor_def Timing_dtor_def
      timeit_void_def timeit_value_def anotherMockDatabaseCall_def yetAnotherMockDatabaseCall_def
      invoke_def now_def w0_def put_def sleep_for_def ms_float_second ms_double_second show_1000)

lemma ms_double_0: "milliseconds_of_seconds double_prec (seconds_of_ticks double_prec 0) = 0"
  by code_simp

lemma ms_double_minus_1:
  "milliseconds_of_seconds double_prec (seconds_of_ticks double_prec (- 1000000)) = - 1"
  by code_simp

lemma ms_float_minus_1:
  "milliseconds_of_seconds float_prec (seconds_of_ticks float_prec (- 1000000)) = - 1"
  by code_simp

lemma show_minus_1: "show_int (- 1) = ''-1''"
  by (simp add: show_int_minus show_int_def digits_step digits_small)

lemma now_objects: "objects (snd (now w)) = objects w"
  by (simp add: now_def split: list.splits)

lemma put_objects: "objects (put s w) = objects w"
  by (simp add: put_def)
section \<open>The timing wrapper returns what the callable returns\<close>

text \<open>
  For a callable that returns an object: when the call that \<open>timeit\<close> makes, in the world
  left by the first reading of the clock, returns \<open>r\<close> and leaves the world \<open>w2\<close>, then
  \<open>timeit\<close> returns \<open>r\<close>, and the world it leaves is \<open>w2\<close> after the second reading and
  the report line: everything the callable did is kept, and nothing else is done.
\<close>

lemma timeit_value_returns_result:
  fixes func :: "'a \<Rightarrow> world \<Rightarrow> ('e + 'r) \<times> world"
  assumes call: "invoke func args (snd (now w)) = (Inr r, w2)"
  shows "timeit_value func args w =
     (Inr r,
      put (''function took '' @
           show_int (milliseconds_of_seconds double_prec
             (seconds_of_ticks double_prec (fst (now w2) - fst (now w)))) @ '' ms'' @ endl)
        (snd (now w2)))"
  using call by (simp add: timeit_value_def split_beta Let_def)

text \<open>
  The call expression is evaluated once, for a callable that does not itself call
  through \<open>timeit\<close>, so that it leaves the counter alone.
\<close>

lemma timeit_value_calls_once:
  fixes func :: "'a \<Rightarrow> world \<Rightarrow> ('e + 'r) \<times> world"
  assumes call: "invoke func args (snd (now w)) = (Inr r, w2)"
    and frame: "\<And>a v. calls (snd (func a v)) = calls v"
  shows "calls (snd (timeit_value func args w)) = Suc (calls w)"
proof -
  have "calls w2 = Suc (calls w)"
    using frame [of args "(snd (now w))\<lparr>calls := Suc (calls (snd (now w)))\<rparr>"] call
    by (simp add: invoke_def now_calls)
  then show ?thesis
    by (simp add: timeit_value_returns_result [OF call] put_calls now_calls)
qed

text \<open>Wrapping \<open>yetAnotherMockDatabaseCall\<close> evaluates to 10 in every world.\<close>

lemma timeit_value_yetAnotherMockDatabaseCall:
  "fst (timeit_value yetAnotherMockDatabaseCall () w) = Inr 10"
  by (simp add: timeit_value_def yetAnotherMockDatabaseCall_def invoke_def split_beta Let_def)

lemma timeit_value_yetAnotherMockDatabaseCall_run:
  "timeit_value yetAnotherMockDatabaseCall () w0 =
     (Inr 10,
      \<lparr>cout = ''Starting the mock database call'' @ endl @
              ''Ending the mock database call'' @ endl @ ''function took 1000 ms'' @ endl,
       clock = 1000000000, steps = [], calls = 1\<rparr>)"
proof -
  let ?w2 = "\<lparr>cout = ''Starting the mock database call'' @ endl @ ''Ending the mock database call'' @ endl,
       clock = 1000000000, steps = [], calls = 1\<rparr>"
  have h: "invoke yetAnotherMockDatabaseCall () (snd (now w0)) = (Inr 10, ?w2)"
    by (simp add: invoke_def yetAnotherMockDatabaseCall_def now_def w0_def put_def sleep_for_def)
  have t: "fst (now ?w2) - fst (now w0) = 1000000000"
    by (simp add: now_def w0_def)
  show ?thesis
    unfolding timeit_value_returns_result [OF h] t ms_double_second show_1000
    by (simp add: now_def put_def)
qed

text \<open>
  For a callable that returns a reference: whatever live object the reference of the
  callable refers to, the reference that \<open>timeit\<close> returns is another one, to an object
  that is dead on return.
\<close>

lemma timeit_ref_dangling:
  fixes func :: "'a \<Rightarrow> 'v mworld \<Rightarrow> ('e + nat) \<times> 'v mworld"
  assumes call: "invoke func args (snd (now w)) = (Inr p, w2)"
    and live: "deref p w2 = Some v"
  shows "\<exists>a w'. timeit_ref func args w = Some (Inr a, w') \<and> a \<noteq> p
           \<and> deref a w' = None \<and> deref p w' = Some v"
proof -
  define a where "a = length (objects w2)"
  define line where "line = ''function took '' @
      show_int (milliseconds_of_seconds double_prec (seconds_of_ticks double_prec
        (fst (now (snd (alloc v w2))) - fst (now w)))) @ '' ms'' @ endl"
  define w' where "w' = release a (put line (snd (now (snd (alloc v w2)))))"
  from live have p: "p < length (objects w2)" and pv: "objects w2 ! p = Some v"
    by (simp_all add: deref_def split: if_splits)
  have t: "timeit_ref func args w = Some (Inr a, w')"
    using call live
    by (simp add: timeit_ref_def split_beta Let_def alloc_def a_def w'_def line_def)
  have o: "objects w' = (objects w2 @ [Some v])[a := None]"
    by (simp add: w'_def release_def put_objects now_objects alloc_def)
  have 1: "a \<noteq> p" using p by (simp add: a_def)
  have 2: "deref a w' = None"
    by (simp add: deref_def o a_def)
  have 3: "deref p w' = Some v"
    using p pv 1 by (simp add: deref_def o a_def nth_append)
  from t 1 2 3 show ?thesis by blast
qed

text \<open>
  Claim C1: for every callable with a non-void return type, \<open>timeit\<close> invokes it once
  and returns exactly the value it produces, unchanged. The code does so for a callable
  that returns an object. It does not for a callable that returns a reference, which is
  a non-void return type too: \<open>getCounter\<close> returns the reference 0, to the live object
  that holds 10, and \<open>timeit\<close> returns the reference 1, to its own local copy
  \<^verbatim>\<open>result\<close>, which is dead when \<open>timeit\<close> has returned.
\<close>

theorem timeit_returns_dangling_reference:
  "invoke getCounter () (snd (now m0)) =
     (Inr 0, \<lparr>cout = [], clock = 0, steps = [], calls = 1, objects = [Some 10]\<rparr>)
   \<and> deref 0 \<lparr>cout = [], clock = 0, steps = [], calls = 1, objects = [Some (10 :: int)]\<rparr> = Some 10
   \<and> timeit_ref getCounter () m0 =
     Some (Inr 1, \<lparr>cout = ''function took 0 ms'' @ endl, clock = 0, steps = [], calls = 1,
                   objects = [Some 10, None]\<rparr>)
   \<and> deref 1 \<lparr>cout = ''function took 0 ms'' @ endl, clock = 0, steps = [], calls = 1,
                objects = [Some (10 :: int), None]\<rparr> = None"
proof -
  have a: "invoke getCounter () (snd (now m0)) =
     (Inr 0, \<lparr>cout = [], clock = 0, steps = [], calls = 1, objects = [Some 10]\<rparr>)"
    by (simp add: invoke_def getCounter_def now_def m0_def)
  have b: "deref 0 \<lparr>cout = [], clock = 0, steps = [], calls = 1, objects = [Some (10 :: int)]\<rparr> = Some 10"
    by (simp add: deref_def)
  have c: "timeit_ref getCounter () m0 =
     Some (Inr 1, \<lparr>cout = ''function took 0 ms'' @ endl, clock = 0, steps = [], calls = 1,
                   objects = [Some 10, None]\<rparr>)"
    by (simp add: timeit_ref_def invoke_def getCounter_def now_def m0_def deref_def alloc_def
        release_def put_def ms_double_0 show_0)
  have d: "deref 1 \<lparr>cout = ''function took 0 ms'' @ endl, clock = 0, steps = [], calls = 1,
                objects = [Some (10 :: int), None]\<rparr> = None"
    by (simp add: deref_def)
  from a b c d show ?thesis by blast
qed

section \<open>An exception of the callable leaves the wrapper at once\<close>

text \<open>
  Claim C2. If the call made by either overload of \<open>timeit\<close> throws \<open>e\<close>, then
  \<open>timeit\<close> throws the same \<open>e\<close>, and the world is the one the callable left: nothing
  was written after the throw, so there is no report line. When the call returns, the
  report line is written after the output of the callable.
\<close>

theorem timeit_propagates_exception:
  fixes func :: "'a \<Rightarrow> world \<Rightarrow> ('e + 'r) \<times> world"
    and proc :: "'a \<Rightarrow> world \<Rightarrow> ('e + unit) \<times> world"
  shows "(invoke func args (snd (now w)) = (Inl e, w2) \<longrightarrow>
            timeit_value func args w = (Inl e, w2))
    \<and> (invoke proc args (snd (now w)) = (Inl e, w2) \<longrightarrow>
            timeit_void proc args w = (Inl e, w2))
    \<and> (\<forall>r. fst (invoke func args (snd (now w))) = Inr r \<longrightarrow>
            cout (snd (timeit_value func args w)) =
              cout (snd (invoke func args (snd (now w)))) @ ''function took '' @
              show_int (milliseconds_of_seconds double_prec (seconds_of_ticks double_prec
                (fst (now (snd (invoke func args (snd (now w))))) - fst (now w)))) @
              '' ms'' @ endl)"
  by (simp add: timeit_value_def timeit_void_def split_beta Let_def put_cout now_cout)

theorem timeit_propagates_exception_witness:
  "invoke failing () (snd (now w0)) =
     (Inl ''connection lost'',
      \<lparr>cout = ''Starting the mock database call'' @ endl, clock = 0, steps = [], calls = 1\<rparr>)
   \<and> timeit_value failing () w0 =
     (Inl ''connection lost'',
      \<lparr>cout = ''Starting the mock database call'' @ endl, clock = 0, steps = [], calls = 1\<rparr>)
   \<and> invoke failing_void () (snd (now w0)) =
     (Inl ''connection lost'',
      \<lparr>cout = ''Starting the mock database call'' @ endl, clock = 0, steps = [], calls = 1\<rparr>)
   \<and> timeit_void failing_void () w0 =
     (Inl ''connection lost'',
      \<lparr>cout = ''Starting the mock database call'' @ endl, clock = 0, steps = [], calls = 1\<rparr>)"
proof -
  let ?w = "\<lparr>cout = ''Starting the mock database call'' @ endl, clock = 0, steps = [], calls = 1\<rparr>"
  have h1: "invoke failing () (snd (now w0)) = (Inl ''connection lost'', ?w)"
    by (simp add: invoke_def failing_def now_def w0_def put_def)
  have h2: "invoke failing_void () (snd (now w0)) = (Inl ''connection lost'', ?w)"
    by (simp add: invoke_def failing_void_def now_def w0_def put_def)
  have a: "timeit_value failing () w0 = (Inl ''connection lost'', ?w)"
    using timeit_propagates_exception [of failing "()" w0 "''connection lost''" ?w failing_void] h1
    by blast
  have b: "timeit_void failing_void () w0 = (Inl ''connection lost'', ?w)"
    using timeit_propagates_exception [of failing "()" w0 "''connection lost''" ?w failing_void] h2
    by blast
  from h1 h2 a b show ?thesis
    by blast
qed

section \<open>The scope timer reports once, at destruction\<close>


section \<open>The wrapper of a void callable\<close>

text \<open>
  Claim C4. For a callable that returns \<^verbatim>\<open>void\<close> and returns normally, \<open>timeit\<close>
  returns no value (the only value of type \<open>unit\<close>), after one evaluation of the call
  expression, and adds one report line, which ends in the only line feed it contains,
  to what the callable wrote.
\<close>

theorem timeit_void_no_result:
  fixes proc :: "'a \<Rightarrow> world \<Rightarrow> ('e + unit) \<times> world"
  assumes call: "invoke proc args (snd (now w)) = (Inr (), w2)"
    and frame: "\<And>a v. calls (snd (proc a v)) = calls v"
  shows "fst (timeit_void proc args w) = Inr ()
    \<and> calls (snd (timeit_void proc args w)) = Suc (calls w)
    \<and> cout (snd (timeit_void proc args w)) =
        cout w2 @ ''function took '' @
        show_int (milliseconds_of_seconds double_prec
          (seconds_of_ticks double_prec (fst (now w2) - fst (now w)))) @ '' ms'' @ endl
    \<and> count_list (''function took '' @
        show_int (milliseconds_of_seconds double_prec
          (seconds_of_ticks double_prec (fst (now w2) - fst (now w)))) @ '' ms'' @ endl)
        (CHR 0x0A) = 1"
proof -
  have c2: "calls w2 = Suc (calls w)"
    using frame [of args "(snd (now w))\<lparr>calls := Suc (calls (snd (now w)))\<rparr>"] call
    by (simp add: invoke_def now_calls)
  have a: "fst (timeit_void proc args w) = Inr ()"
    using call by (simp add: timeit_void_def split_beta Let_def)
  have b: "calls (snd (timeit_void proc args w)) = Suc (calls w)"
    using call c2 by (simp add: timeit_void_def split_beta Let_def put_calls now_calls)
  have c: "cout (snd (timeit_void proc args w)) =
        cout w2 @ ''function took '' @
        show_int (milliseconds_of_seconds double_prec
          (seconds_of_ticks double_prec (fst (now w2) - fst (now w)))) @ '' ms'' @ endl"
    using call by (simp add: timeit_void_def split_beta Let_def put_cout now_cout)
  from a b c report_one_line show ?thesis
    by blast
qed

theorem timeit_void_no_result_witness:
  "invoke anotherMockDatabaseCall () (snd (now w0)) =
     (Inr () :: unit + unit,
      \<lparr>cout = ''Starting the mock database call'' @ endl @ ''Ending the mock database call'' @ endl,
       clock = 1000000000, steps = [], calls = 1\<rparr>)
   \<and> (\<forall>a v. calls (snd ((anotherMockDatabaseCall :: unit \<Rightarrow> world \<Rightarrow> (unit + unit) \<times> world) a v)) = calls v)
   \<and> fst (timeit_void anotherMockDatabaseCall () w0) = (Inr () :: unit + unit)
   \<and> calls (snd (timeit_void (anotherMockDatabaseCall :: unit \<Rightarrow> world \<Rightarrow> (unit + unit) \<times> world) () w0)) = 1
   \<and> cout (snd (timeit_void (anotherMockDatabaseCall :: unit \<Rightarrow> world \<Rightarrow> (unit + unit) \<times> world) () w0)) =
       ''Starting the mock database call'' @ endl @ ''Ending the mock database call'' @ endl @
       ''function took 1000 ms'' @ endl"
proof -
  let ?f = "anotherMockDatabaseCall :: unit \<Rightarrow> world \<Rightarrow> (unit + unit) \<times> world"
  let ?w2 = "\<lparr>cout = ''Starting the mock database call'' @ endl @ ''Ending the mock database call'' @ endl,
       clock = 1000000000, steps = [], calls = 1\<rparr>"
  have h1: "invoke ?f () (snd (now w0)) = (Inr (), ?w2)"
    by (simp add: invoke_def anotherMockDatabaseCall_def now_def w0_def put_def sleep_for_def)
  have h2: "\<And>a v. calls (snd (?f a v)) = calls v"
    by (simp add: anotherMockDatabaseCall_def put_def sleep_for_def)
  have c0: "calls w0 = 0"
    by (simp add: w0_def)
  have t: "fst (now ?w2) - fst (now w0) = 1000000000"
    by (simp add: now_def w0_def)
  have ms: "show_int (milliseconds_of_seconds double_prec (seconds_of_ticks double_prec 1000000000)) = ''1000''"
    by code_simp
  have h3: "fst (timeit_void ?f () w0) = Inr ()"
    and h4: "calls (snd (timeit_void ?f () w0)) = 1"
    and h5: "cout (snd (timeit_void ?f () w0)) =
       ''Starting the mock database call'' @ endl @ ''Ending the mock database call'' @ endl @
       ''function took 1000 ms'' @ endl"
    using timeit_void_no_result [OF h1 h2] unfolding c0 t ms by simp_all
  from h1 h2 h3 h4 h5 show ?thesis
    by blast
qed

section \<open>The format of the report, and the number in it\<close>

text \<open>
  Claim C5, as stated: every report line is \<open>function took N ms\<close> and a line feed, with
  \<open>N\<close> the elapsed duration truncated to whole milliseconds. The format holds. The number
  does not: the duration goes through floating-point seconds. In the timing wrapper,
  \<open>1001000000\<close> ticks (1001 ms exactly) become the \<^verbatim>\<open>double\<close> nearest to \<open>1.001\<close>,
  which is below it, and the report says 1000. In the scope timer, \<open>1000999990\<close> ticks
  (1000.99999 ms) become the \<^verbatim>\<open>float\<close> \<open>1001000000\<close>, and the report says 1001:
  rounded up, not truncated.
\<close>

theorem report_is_not_truncated_elapsed_time_counterexample:
  "fst (now (w0\<lparr>steps := [0, 1000000]\<rparr>)) = 0
   \<and> fst (now (snd (invoke (anotherMockDatabaseCall :: unit \<Rightarrow> world \<Rightarrow> (unit + unit) \<times> world) ()
         (snd (now (w0\<lparr>steps := [0, 1000000]\<rparr>)))))) = 1001000000
   \<and> cout (snd (timeit_void (anotherMockDatabaseCall :: unit \<Rightarrow> world \<Rightarrow> (unit + unit) \<times> world) ()
         (w0\<lparr>steps := [0, 1000000]\<rparr>))) =
       ''Starting the mock database call'' @ endl @ ''Ending the mock database call'' @ endl @
       ''function took 1000 ms'' @ endl
   \<and> (1001000000 - 0) div 1000000 = (1001 :: int)
   \<and> start (fst (Timing_ctor w0)) = 0
   \<and> fst (now (w0\<lparr>clock := 1000999990\<rparr>)) = 1000999990
   \<and> cout (Timing_dtor (fst (Timing_ctor w0)) (w0\<lparr>clock := 1000999990\<rparr>)) =
       ''function took 1001 ms'' @ endl
   \<and> (1000999990 - 0) div 1000000 = (1000 :: int)"
proof -
  let ?f = "anotherMockDatabaseCall :: unit \<Rightarrow> world \<Rightarrow> (unit + unit) \<times> world"
  have a: "fst (now (w0\<lparr>steps := [0, 1000000]\<rparr>)) = 0"
    by (simp add: now_def w0_def)
  have b: "fst (now (snd (invoke ?f () (snd (now (w0\<lparr>steps := [0, 1000000]\<rparr>)))))) = 1001000000"
    by (simp add: anotherMockDatabaseCall_def invoke_def now_def w0_def put_def sleep_for_def)
  have c: "cout (snd (timeit_void ?f () (w0\<lparr>steps := [0, 1000000]\<rparr>))) =
       ''Starting the mock database call'' @ endl @ ''Ending the mock database call'' @ endl @
       ''function took 1000 ms'' @ endl"
    by (simp add: timeit_void_def anotherMockDatabaseCall_def invoke_def now_def w0_def
        put_def sleep_for_def ms_double_1001 show_1000)
  have d: "start (fst (Timing_ctor w0)) = 0"
    by (simp add: Timing_ctor_def now_def w0_def)
  have e: "fst (now (w0\<lparr>clock := 1000999990\<rparr>)) = 1000999990"
    by (simp add: now_def w0_def)
  have f: "cout (Timing_dtor (fst (Timing_ctor w0)) (w0\<lparr>clock := 1000999990\<rparr>)) =
       ''function took 1001 ms'' @ endl"
    by (simp add: Timing_dtor_cout d e ms_float_1000 show_1001) (simp add: w0_def)
  have g: "(1001000000 - 0) div 1000000 = (1001 :: int)" "(1000999990 - 0) div 1000000 = (1000 :: int)"
    by simp_all
  from a b c d e f g show ?thesis by blast
qed

text \<open>
  Claim C5, amended: every report line is \<open>function took N ms\<close> and a line feed, where
  \<open>N\<close> is the elapsed tick count converted to floating-point seconds (\<^verbatim>\<open>float\<close> in the
  scope timer, \<^verbatim>\<open>double\<close> in the timing wrapper), multiplied by 1000 and truncated
  toward zero. For a non-negative elapsed time, below \<open>2\<^sup>2\<^sup>2\<close> ms (about 70 minutes)
  in the scope timer and below \<open>2\<^sup>6\<^sup>3\<close> ticks in the wrapper, \<open>N\<close> differs from the
  elapsed duration truncated to whole milliseconds by at most 1.
\<close>

theorem report_line_format:
  fixes func :: "'a \<Rightarrow> world \<Rightarrow> ('e + 'r) \<times> world"
    and proc :: "'a \<Rightarrow> world \<Rightarrow> ('e + unit) \<times> world"
  shows "cout (Timing_dtor this v) =
       cout v @ ''function took '' @
       show_int (milliseconds_of_seconds float_prec
         (seconds_of_ticks float_prec (fst (now v) - start this))) @ '' ms'' @ endl
   \<and> (invoke func args (snd (now w)) = (Inr r, w2) \<longrightarrow>
       cout (snd (timeit_value func args w)) =
         cout w2 @ ''function took '' @
         show_int (milliseconds_of_seconds double_prec
           (seconds_of_ticks double_prec (fst (now w2) - fst (now w)))) @ '' ms'' @ endl)
   \<and> (invoke proc args (snd (now w)) = (Inr (), w3) \<longrightarrow>
       cout (snd (timeit_void proc args w)) =
         cout w3 @ ''function took '' @
         show_int (milliseconds_of_seconds double_prec
           (seconds_of_ticks double_prec (fst (now w3) - fst (now w)))) @ '' ms'' @ endl)
   \<and> (0 \<le> d \<and> d < 4194304000000 \<longrightarrow>
       \<bar>milliseconds_of_seconds float_prec (seconds_of_ticks float_prec d) - d div 1000000\<bar> \<le> 1)
   \<and> (0 \<le> d \<and> d < 2 ^ 63 \<longrightarrow>
       \<bar>milliseconds_of_seconds double_prec (seconds_of_ticks double_prec d) - d div 1000000\<bar> \<le> 1)"
proof -
  have f: "\<bar>milliseconds_of_seconds float_prec (seconds_of_ticks float_prec d) - d div 1000000\<bar> \<le> 1"
    if "0 \<le> d" and "d < 4194304000000"
    using that by (intro milliseconds_close) (simp_all add: float_prec_def)
  have g: "\<bar>milliseconds_of_seconds double_prec (seconds_of_ticks double_prec d) - d div 1000000\<bar> \<le> 1"
    if "0 \<le> d" and "d < 2 ^ 63"
    using that by (intro milliseconds_close) (simp_all add: double_prec_def)
  from f g Timing_dtor_cout [of this v] timeit_value_cout [of func args w r w2]
    timeit_void_cout [of proc args w w3]
  show ?thesis by blast
qed

theorem report_line_format_witness:
  "invoke (yetAnotherMockDatabaseCall :: unit \<Rightarrow> world \<Rightarrow> (unit + int) \<times> world) ()
       (snd (now (w0\<lparr>steps := [0, 1000000]\<rparr>))) =
     (Inr 10,
      \<lparr>cout = ''Starting the mock database call'' @ endl @ ''Ending the mock database call'' @ endl,
       clock = 1000000000, steps = [1000000], calls = 1\<rparr>)
   \<and> cout (snd (timeit_value (yetAnotherMockDatabaseCall :: unit \<Rightarrow> world \<Rightarrow> (unit + int) \<times> world) ()
         (w0\<lparr>steps := [0, 1000000]\<rparr>))) =
       ''Starting the mock database call'' @ endl @ ''Ending the mock database call'' @ endl @
       ''function took 1000 ms'' @ endl
   \<and> invoke (anotherMockDatabaseCall :: unit \<Rightarrow> world \<Rightarrow> (unit + unit) \<times> world) ()
       (snd (now (w0\<lparr>steps := [0, 1000000]\<rparr>))) =
     (Inr (),
      \<lparr>cout = ''Starting the mock database call'' @ endl @ ''Ending the mock database call'' @ endl,
       clock = 1000000000, steps = [1000000], calls = 1\<rparr>)
   \<and> cout (snd (timeit_void (anotherMockDatabaseCall :: unit \<Rightarrow> world \<Rightarrow> (unit + unit) \<times> world) ()
         (w0\<lparr>steps := [0, 1000000]\<rparr>))) =
       ''Starting the mock database call'' @ endl @ ''Ending the mock database call'' @ endl @
       ''function took 1000 ms'' @ endl
   \<and> cout (Timing_dtor (fst (Timing_ctor w0)) (w0\<lparr>clock := 1000999990\<rparr>)) =
       ''function took 1001 ms'' @ endl
   \<and> (0 :: int) \<le> 1001000000 \<and> (1001000000 :: int) < 4194304000000 \<and> (1001000000 :: int) < 2 ^ 63
   \<and> \<bar>milliseconds_of_seconds float_prec (seconds_of_ticks float_prec 1001000000)
        - 1001000000 div 1000000\<bar> \<le> 1
   \<and> \<bar>milliseconds_of_seconds double_prec (seconds_of_ticks double_prec 1001000000)
        - 1001000000 div 1000000\<bar> \<le> 1"
proof -
  let ?f = "yetAnotherMockDatabaseCall :: unit \<Rightarrow> world \<Rightarrow> (unit + int) \<times> world"
  let ?g = "anotherMockDatabaseCall :: unit \<Rightarrow> world \<Rightarrow> (unit + unit) \<times> world"
  let ?w = "w0\<lparr>steps := [0, 1000000]\<rparr>"
  let ?w2 = "\<lparr>cout = ''Starting the mock database call'' @ endl @ ''Ending the mock database call'' @ endl,
       clock = 1000000000, steps = [1000000], calls = 1\<rparr>"
  let ?t = "fst (Timing_ctor w0)"
  let ?v = "w0\<lparr>clock := 1000999990\<rparr>"
  note T = report_line_format [of ?t ?v ?f "()" ?w 10 ?w2 ?g ?w2 1001000000]
  have h1: "invoke ?f () (snd (now ?w)) = (Inr 10, ?w2)"
    by (simp add: invoke_def yetAnotherMockDatabaseCall_def now_def w0_def put_def sleep_for_def)
  have h2: "invoke ?g () (snd (now ?w)) = (Inr (), ?w2)"
    by (simp add: invoke_def anotherMockDatabaseCall_def now_def w0_def put_def sleep_for_def)
  have r: "fst (now ?w2) - fst (now ?w) = 1001000000"
    by (simp add: now_def w0_def)
  have s: "fst (now ?v) - start ?t = 1000999990"
    by (simp add: now_def w0_def Timing_ctor_def)
  have c1: "cout (snd (timeit_value ?f () ?w)) =
       ''Starting the mock database call'' @ endl @ ''Ending the mock database call'' @ endl @
       ''function took 1000 ms'' @ endl"
    using T h1 unfolding r ms_double_1001 show_1000 by simp
  have c2: "cout (snd (timeit_void ?g () ?w)) =
       ''Starting the mock database call'' @ endl @ ''Ending the mock database call'' @ endl @
       ''function took 1000 ms'' @ endl"
    using T h2 unfolding r ms_double_1001 show_1000 by simp
  have c3: "cout (Timing_dtor ?t ?v) = ''function took 1001 ms'' @ endl"
    using T unfolding s ms_float_1000 show_1001 by (simp add: w0_def)
  have n: "(0 :: int) \<le> 1001000000" "(1001000000 :: int) < 4194304000000" "(1001000000 :: int) < 2 ^ 63"
    by simp_all
  have c4: "\<bar>milliseconds_of_seconds float_prec (seconds_of_ticks float_prec 1001000000)
        - 1001000000 div 1000000\<bar> \<le> 1"
    and c5: "\<bar>milliseconds_of_seconds double_prec (seconds_of_ticks double_prec 1001000000)
        - 1001000000 div 1000000\<bar> \<le> 1"
    using T n by blast+
  from h1 h2 c1 c2 c3 n c4 c5 show ?thesis by blast
qed

section \<open>The reported duration is not negative\<close>

text \<open>
  Claim C6, as stated: for every timed operation the reported duration is a non-negative
  number of milliseconds, because the two readings come from a clock that never runs
  backward. The readings come from \<^verbatim>\<open>high_resolution_clock\<close>, which the C++ standard
  does not require to be steady, and nothing in the source keeps the difference from
  being negative. When the clock is set back by 1.001 s during the one-second sleep, the
  second reading is 1 ms below the first, and both the timing wrapper and the scope
  timer report \<open>-1\<close>.
\<close>

theorem report_negative_after_backward_step_counterexample:
  "fst (now (w0\<lparr>steps := [0, - 1001000000]\<rparr>)) = 0
   \<and> fst (now (snd (invoke (anotherMockDatabaseCall :: unit \<Rightarrow> world \<Rightarrow> (unit + unit) \<times> world) ()
         (snd (now (w0\<lparr>steps := [0, - 1001000000]\<rparr>)))))) = - 1000000
   \<and> cout (snd (timeit_void (anotherMockDatabaseCall :: unit \<Rightarrow> world \<Rightarrow> (unit + unit) \<times> world) ()
         (w0\<lparr>steps := [0, - 1001000000]\<rparr>))) =
       ''Starting the mock database call'' @ endl @ ''Ending the mock database call'' @ endl @
       ''function took -1 ms'' @ endl
   \<and> cout (snd ((mockDatabaseCall :: unit \<Rightarrow> world \<Rightarrow> (unit + unit) \<times> world) ()
         (w0\<lparr>steps := [0, - 1001000000]\<rparr>))) =
       ''Starting the mock database call'' @ endl @ ''Ending the mock database call'' @ endl @
       ''function took -1 ms'' @ endl"
proof -
  let ?f = "anotherMockDatabaseCall :: unit \<Rightarrow> world \<Rightarrow> (unit + unit) \<times> world"
  let ?w = "w0\<lparr>steps := [0, - 1001000000]\<rparr>"
  have a: "fst (now ?w) = 0"
    by (simp add: now_def w0_def)
  have b: "fst (now (snd (invoke ?f () (snd (now ?w))))) = - 1000000"
    by (simp add: anotherMockDatabaseCall_def invoke_def now_def w0_def put_def sleep_for_def)
  have c: "cout (snd (timeit_void ?f () ?w)) =
       ''Starting the mock database call'' @ endl @ ''Ending the mock database call'' @ endl @
       ''function took -1 ms'' @ endl"
    by (simp add: timeit_void_def anotherMockDatabaseCall_def invoke_def now_def w0_def
        put_def sleep_for_def ms_double_minus_1 show_minus_1)
  have d: "cout (snd ((mockDatabaseCall :: unit \<Rightarrow> world \<Rightarrow> (unit + unit) \<times> world) () ?w)) =
       ''Starting the mock database call'' @ endl @ ''Ending the mock database call'' @ endl @
       ''function took -1 ms'' @ endl"
    by (simp add: mockDatabaseCall_def Timing_scope_def Timing_ctor_def Timing_dtor_def now_def
        w0_def put_def sleep_for_def ms_float_minus_1 show_minus_1)
  from a b c d show ?thesis by blast
qed

text \<open>
  Claim C6, amended: for every timed operation in which the clock has not run backward
  between the two readings (the second is not below the first), the number in the
  report line, of the scope timer and of both overloads of the timing wrapper, is a
  non-negative integer: decimal digits without a sign. The source reads
  \<^verbatim>\<open>high_resolution_clock\<close> and does not itself exclude a backward step.
\<close>

theorem reported_duration_nonnegative:
  fixes func :: "'a \<Rightarrow> world \<Rightarrow> ('e + 'r) \<times> world"
    and proc :: "'a \<Rightarrow> world \<Rightarrow> ('e + unit) \<times> world"
  shows "(start this \<le> fst (now v) \<longrightarrow>
       (\<exists>n. cout (Timing_dtor this v) = cout v @ ''function took '' @ digits n @ '' ms'' @ endl))
   \<and> (invoke func args (snd (now w)) = (Inr r, w2) \<and> fst (now w) \<le> fst (now w2) \<longrightarrow>
       (\<exists>n. cout (snd (timeit_value func args w)) =
          cout w2 @ ''function took '' @ digits n @ '' ms'' @ endl))
   \<and> (invoke proc args (snd (now w)) = (Inr (), w3) \<and> fst (now w) \<le> fst (now w3) \<longrightarrow>
       (\<exists>n. cout (snd (timeit_void proc args w)) =
          cout w3 @ ''function took '' @ digits n @ '' ms'' @ endl))"
proof -
  have a: "\<exists>n. cout (Timing_dtor this v) = cout v @ ''function took '' @ digits n @ '' ms'' @ endl"
    if "start this \<le> fst (now v)"
  proof -
    define n where "n = nat (milliseconds_of_seconds float_prec
          (seconds_of_ticks float_prec (fst (now v) - start this)))"
    from that have "0 \<le> fst (now v) - start this" by simp
    then have "cout (Timing_dtor this v) = cout v @ ''function took '' @ digits n @ '' ms'' @ endl"
      unfolding n_def by (simp add: Timing_dtor_cout report_digits float_prec_def)
    then show ?thesis by (rule exI [of _ n])
  qed
  have b: "\<exists>n. cout (snd (timeit_value func args w)) =
          cout w2 @ ''function took '' @ digits n @ '' ms'' @ endl"
    if "invoke func args (snd (now w)) = (Inr r, w2)" and "fst (now w) \<le> fst (now w2)"
  proof -
    define n where "n = nat (milliseconds_of_seconds double_prec
          (seconds_of_ticks double_prec (fst (now w2) - fst (now w))))"
    from that(2) have "0 \<le> fst (now w2) - fst (now w)" by simp
    then have "cout (snd (timeit_value func args w)) = cout w2 @ ''function took '' @ digits n @ '' ms'' @ endl"
      unfolding n_def by (simp add: timeit_value_cout [OF that(1)] report_digits double_prec_def)
    then show ?thesis by (rule exI [of _ n])
  qed
  have c: "\<exists>n. cout (snd (timeit_void proc args w)) =
          cout w3 @ ''function took '' @ digits n @ '' ms'' @ endl"
    if "invoke proc args (snd (now w)) = (Inr (), w3)" and "fst (now w) \<le> fst (now w3)"
  proof -
    define n where "n = nat (milliseconds_of_seconds double_prec
          (seconds_of_ticks double_prec (fst (now w3) - fst (now w))))"
    from that(2) have "0 \<le> fst (now w3) - fst (now w)" by simp
    then have "cout (snd (timeit_void proc args w)) = cout w3 @ ''function took '' @ digits n @ '' ms'' @ endl"
      unfolding n_def by (simp add: timeit_void_cout [OF that(1)] report_digits double_prec_def)
    then show ?thesis by (rule exI [of _ n])
  qed
  from a b c show ?thesis by blast
qed

theorem reported_duration_nonnegative_witness:
  "start (fst (Timing_ctor w0)) \<le> fst (now (w0\<lparr>clock := 1000999990\<rparr>))
   \<and> (\<exists>n. cout (Timing_dtor (fst (Timing_ctor w0)) (w0\<lparr>clock := 1000999990\<rparr>)) =
         cout (w0\<lparr>clock := 1000999990\<rparr>) @ ''function took '' @ digits n @ '' ms'' @ endl)
   \<and> invoke (yetAnotherMockDatabaseCall :: unit \<Rightarrow> world \<Rightarrow> (unit + int) \<times> world) ()
       (snd (now (w0\<lparr>steps := [0, 1000000]\<rparr>))) =
     (Inr 10,
      \<lparr>cout = ''Starting the mock database call'' @ endl @ ''Ending the mock database call'' @ endl,
       clock = 1000000000, steps = [1000000], calls = 1\<rparr>)
   \<and> fst (now (w0\<lparr>steps := [0, 1000000]\<rparr>)) \<le>
       fst (now \<lparr>cout = ''Starting the mock database call'' @ endl @ ''Ending the mock database call'' @ endl,
       clock = 1000000000, steps = [1000000], calls = 1\<rparr>)
   \<and> (\<exists>n. cout (snd (timeit_value (yetAnotherMockDatabaseCall :: unit \<Rightarrow> world \<Rightarrow> (unit + int) \<times> world) ()
         (w0\<lparr>steps := [0, 1000000]\<rparr>))) =
       ''Starting the mock database call'' @ endl @ ''Ending the mock database call'' @ endl @
       ''function took '' @ digits n @ '' ms'' @ endl)
   \<and> invoke (anotherMockDatabaseCall :: unit \<Rightarrow> world \<Rightarrow> (unit + unit) \<times> world) ()
       (snd (now (w0\<lparr>steps := [0, 1000000]\<rparr>))) =
     (Inr (),
      \<lparr>cout = ''Starting the mock database call'' @ endl @ ''Ending the mock database call'' @ endl,
       clock = 1000000000, steps = [1000000], calls = 1\<rparr>)
   \<and> (\<exists>n. cout (snd (timeit_void (anotherMockDatabaseCall :: unit \<Rightarrow> world \<Rightarrow> (unit + unit) \<times> world) ()
         (w0\<lparr>steps := [0, 1000000]\<rparr>))) =
       ''Starting the mock database call'' @ endl @ ''Ending the mock database call'' @ endl @
       ''function took '' @ digits n @ '' ms'' @ endl)"
proof -
  let ?f = "yetAnotherMockDatabaseCall :: unit \<Rightarrow> world \<Rightarrow> (unit + int) \<times> world"
  let ?g = "anotherMockDatabaseCall :: unit \<Rightarrow> world \<Rightarrow> (unit + unit) \<times> world"
  let ?w = "w0\<lparr>steps := [0, 1000000]\<rparr>"
  let ?w2 = "\<lparr>cout = ''Starting the mock database call'' @ endl @ ''Ending the mock database call'' @ endl,
       clock = 1000000000, steps = [1000000], calls = 1\<rparr>"
  let ?t = "fst (Timing_ctor w0)"
  let ?v = "w0\<lparr>clock := 1000999990\<rparr>"
  note T = reported_duration_nonnegative [of ?t ?v ?f "()" ?w 10 ?w2 ?g ?w2]
  have h0: "start ?t \<le> fst (now ?v)"
    by (simp add: now_def w0_def Timing_ctor_def)
  have h1: "invoke ?f () (snd (now ?w)) = (Inr 10, ?w2)"
    by (simp add: invoke_def yetAnotherMockDatabaseCall_def now_def w0_def put_def sleep_for_def)
  have h2: "invoke ?g () (snd (now ?w)) = (Inr (), ?w2)"
    by (simp add: invoke_def anotherMockDatabaseCall_def now_def w0_def put_def sleep_for_def)
  have h3: "fst (now ?w) \<le> fst (now ?w2)"
    by (simp add: now_def w0_def)
  have k: "cout ?w2 = ''Starting the mock database call'' @ endl @ ''Ending the mock database call'' @ endl"
    by simp
  have c0: "\<exists>n. cout (Timing_dtor ?t ?v) = cout ?v @ ''function took '' @ digits n @ '' ms'' @ endl"
    using T h0 by blast
  have "\<exists>n. cout (snd (timeit_value ?f () ?w)) = cout ?w2 @ ''function took '' @ digits n @ '' ms'' @ endl"
    using T h1 h3 by blast
  then have c1: "\<exists>n. cout (snd (timeit_value ?f () ?w)) =
       ''Starting the mock database call'' @ endl @ ''Ending the mock database call'' @ endl @
       ''function took '' @ digits n @ '' ms'' @ endl"
    unfolding k by simp
  have "\<exists>n. cout (snd (timeit_void ?g () ?w)) = cout ?w2 @ ''function took '' @ digits n @ '' ms'' @ endl"
    using T h2 h3 by blast
  then have c2: "\<exists>n. cout (snd (timeit_void ?g () ?w)) =
       ''Starting the mock database call'' @ endl @ ''Ending the mock database call'' @ endl @
       ''function took '' @ digits n @ '' ms'' @ endl"
    unfolding k by simp
  from h0 c0 h1 h3 c1 h2 c2 show ?thesis by blast
qed

section \<open>The destructor and an unusable clock\<close>

text \<open>
  Claim C7, as stated: destruction never fails, and with the clock unavailable it
  degrades to a zero or sentinel duration. The source has no such fallback. Its clock
  has no failure to signal: \<^verbatim>\<open>now()\<close> returns a time point, and the destructor takes
  whatever it returns. When the reading at destruction is 0, the epoch, which is the
  time point a clock with nothing to say would give, the report is neither zero nor a
  fixed value: it is \<open>-5000\<close> after a start at \<open>5 \<cdot> 10\<^sup>9\<close> and \<open>-7000\<close> after a start at
  \<open>7 \<cdot> 10\<^sup>9\<close>.
\<close>

theorem Timing_has_no_clock_fallback_counterexample:
  "fst (now w0) = 0
   \<and> cout (Timing_dtor \<lparr>start = 5000000000, end_tp = 0, duration = 0\<rparr> w0) =
       ''function took -5000 ms'' @ endl
   \<and> cout (Timing_dtor \<lparr>start = 7000000000, end_tp = 0, duration = 0\<rparr> w0) =
       ''function took -7000 ms'' @ endl"
proof -
  have a: "fst (now w0) = 0"
    by (simp add: now_def w0_def)
  have b: "cout (Timing_dtor \<lparr>start = 5000000000, end_tp = 0, duration = 0\<rparr> w0) =
       ''function took -5000 ms'' @ endl"
    by (simp add: Timing_dtor_cout a ms_float_minus_5000 show_minus_5000) (simp add: w0_def)
  have c: "cout (Timing_dtor \<lparr>start = 7000000000, end_tp = 0, duration = 0\<rparr> w0) =
       ''function took -7000 ms'' @ endl"
    by (simp add: Timing_dtor_cout a ms_float_minus_7000 show_minus_7000) (simp add: w0_def)
  from a b c show ?thesis by blast
qed

text \<open>
  Claim C7, amended: the destruction of a scope timer never throws or fails. The
  destructor is a function of the object and the world that appends its report line and
  has no other outcome; a block with a scope timer hands on the result of its body, a
  value or an exception, unchanged, after the report. The report is always the
  converted difference of the two readings: no reading is treated as a failure of the
  clock.
\<close>

theorem Timing_teardown_completes:
  "Timing_dtor this v =
     put (''function took '' @
          show_int (milliseconds_of_seconds float_prec
            (seconds_of_ticks float_prec (fst (now v) - start this))) @ '' ms'' @ endl)
       (snd (now v))
   \<and> Timing_scope body w =
     (fst (body (snd (now w))),
      put (''function took '' @
           show_int (milliseconds_of_seconds float_prec
             (seconds_of_ticks float_prec
                (fst (now (snd (body (snd (now w))))) - fst (now w)))) @ '' ms'' @ endl)
        (snd (now (snd (body (snd (now w)))))))"
  by (simp add: Timing_scope_def Timing_dtor_def Timing_ctor_def split_beta Let_def)

section \<open>Nested scope timers\<close>

text \<open>
  Claim C8. In \<^verbatim>\<open>{ Timing outer; pre; { Timing inner; body; } post; }\<close>, where \<open>pre\<close>
  returns normally: the report of the inner timer, which measures from the reading of
  its own constructor to the reading of its own destructor, comes right after the
  output of \<open>body\<close>; the report of the outer timer, which measures from the first reading
  of all to the last, comes after it, and after whatever \<open>post\<close> then appends. When
  \<open>body\<close> throws, \<open>post\<close> does not run, the exception leaves both blocks, and the two
  reports still come in this order.
\<close>

theorem nested_timings_report_inner_first:
  fixes pre :: "world \<Rightarrow> ('e + 'a) \<times> world"
    and body :: "world \<Rightarrow> ('e + 'b) \<times> world"
    and post :: "world \<Rightarrow> ('e + 'c) \<times> world"
  assumes pre: "pre (snd (Timing_ctor w)) = (Inr a, wp)"
    and body: "body (snd (Timing_ctor wp)) = (rb, wb)"
  shows "(rb = Inr b \<and> post (Timing_dtor (fst (Timing_ctor wp)) wb) = (rp, wq)
          \<and> cout wq = cout (Timing_dtor (fst (Timing_ctor wp)) wb) @ s \<longrightarrow>
        fst (nested_scopes pre body post w) = rp
        \<and> cout (snd (nested_scopes pre body post w)) =
            cout wb @ ''function took '' @
            show_int (milliseconds_of_seconds float_prec
              (seconds_of_ticks float_prec (fst (now wb) - fst (now wp)))) @ '' ms'' @ endl @
            s @ ''function took '' @
            show_int (milliseconds_of_seconds float_prec
              (seconds_of_ticks float_prec (fst (now wq) - fst (now w)))) @ '' ms'' @ endl)
   \<and> (rb = Inl e \<longrightarrow>
        fst (nested_scopes pre body post w) = Inl e
        \<and> cout (snd (nested_scopes pre body post w)) =
            cout wb @ ''function took '' @
            show_int (milliseconds_of_seconds float_prec
              (seconds_of_ticks float_prec (fst (now wb) - fst (now wp)))) @ '' ms'' @ endl @
            ''function took '' @
            show_int (milliseconds_of_seconds float_prec
              (seconds_of_ticks float_prec
                 (fst (now (Timing_dtor (fst (Timing_ctor wp)) wb)) - fst (now w)))) @
            '' ms'' @ endl)"
proof -
  let ?wd = "Timing_dtor (fst (Timing_ctor wp)) wb"
  have inner: "Timing_scope body wp = (rb, ?wd)"
    using body by (simp add: Timing_scope_def split_beta)
  have wd: "cout ?wd = cout wb @ ''function took '' @
            show_int (milliseconds_of_seconds float_prec
              (seconds_of_ticks float_prec (fst (now wb) - fst (now wp)))) @ '' ms'' @ endl"
    by (simp add: Timing_dtor_cout Timing_ctor_start)
  have 1: "fst (nested_scopes pre body post w) = rp
        \<and> cout (snd (nested_scopes pre body post w)) =
            cout wb @ ''function took '' @
            show_int (milliseconds_of_seconds float_prec
              (seconds_of_ticks float_prec (fst (now wb) - fst (now wp)))) @ '' ms'' @ endl @
            s @ ''function took '' @
            show_int (milliseconds_of_seconds float_prec
              (seconds_of_ticks float_prec (fst (now wq) - fst (now w)))) @ '' ms'' @ endl"
    if h: "rb = Inr b" "post ?wd = (rp, wq)" "cout wq = cout ?wd @ s"
  proof -
    have "andThen pre (andThen (Timing_scope body) post) (snd (Timing_ctor w)) = (rp, wq)"
      using pre inner h(1,2) by (simp add: andThen_def)
    then have "nested_scopes pre body post w = (rp, Timing_dtor (fst (Timing_ctor w)) wq)"
      by (simp add: nested_scopes_def Timing_scope_def split_beta)
    then show ?thesis
      by (simp add: Timing_dtor_cout Timing_ctor_start h(3) wd)
  qed
  have 2: "fst (nested_scopes pre body post w) = Inl e
        \<and> cout (snd (nested_scopes pre body post w)) =
            cout wb @ ''function took '' @
            show_int (milliseconds_of_seconds float_prec
              (seconds_of_ticks float_prec (fst (now wb) - fst (now wp)))) @ '' ms'' @ endl @
            ''function took '' @
            show_int (milliseconds_of_seconds float_prec
              (seconds_of_ticks float_prec (fst (now ?wd) - fst (now w)))) @ '' ms'' @ endl"
    if h: "rb = Inl e"
  proof -
    have "andThen pre (andThen (Timing_scope body) post) (snd (Timing_ctor w)) = (Inl e, ?wd)"
      using pre inner h by (simp add: andThen_def)
    then have "nested_scopes pre body post w = (Inl e, Timing_dtor (fst (Timing_ctor w)) ?wd)"
      by (simp add: nested_scopes_def Timing_scope_def split_beta)
    then show ?thesis
      by (simp add: Timing_dtor_cout [of _ ?wd] Timing_ctor_start wd)
  qed
  from 1 2 show ?thesis by blast
qed

theorem nested_timings_report_inner_first_witness:
  "nap 1000000 () (snd (Timing_ctor w0)) = (Inr () :: string + unit, w0\<lparr>clock := 1000000\<rparr>)
   \<and> yetAnotherMockDatabaseCall () (snd (Timing_ctor (w0\<lparr>clock := 1000000\<rparr>))) =
       (Inr 10 :: string + int,
        \<lparr>cout = ''Starting the mock database call'' @ endl @ ''Ending the mock database call'' @ endl,
         clock = 1001000000, steps = [], calls = 0\<rparr>)
   \<and> anotherMockDatabaseCall ()
         \<lparr>cout = ''Starting the mock database call'' @ endl @ ''Ending the mock database call'' @ endl @
            ''function took 1000 ms'' @ endl,
          clock = 1001000000, steps = [], calls = 0\<rparr> =
       (Inr () :: string + unit,
        \<lparr>cout = ''Starting the mock database call'' @ endl @ ''Ending the mock database call'' @ endl @
           ''function took 1000 ms'' @ endl @
           ''Starting the mock database call'' @ endl @ ''Ending the mock database call'' @ endl,
         clock = 2001000000, steps = [], calls = 0\<rparr>)
   \<and> Timing_dtor (fst (Timing_ctor (w0\<lparr>clock := 1000000\<rparr>)))
         \<lparr>cout = ''Starting the mock database call'' @ endl @ ''Ending the mock database call'' @ endl,
          clock = 1001000000, steps = [], calls = 0\<rparr> =
       \<lparr>cout = ''Starting the mock database call'' @ endl @ ''Ending the mock database call'' @ endl @
            ''function took 1000 ms'' @ endl,
        clock = 1001000000, steps = [], calls = 0\<rparr>
   \<and> fst (nested_scopes (nap 1000000 ()) (yetAnotherMockDatabaseCall ()) (anotherMockDatabaseCall ()) w0)
       = (Inr () :: string + unit)
   \<and> cout (snd (nested_scopes (nap 1000000 () :: world \<Rightarrow> (string + unit) \<times> world)
         (yetAnotherMockDatabaseCall () :: world \<Rightarrow> (string + int) \<times> world)
         (anotherMockDatabaseCall () :: world \<Rightarrow> (string + unit) \<times> world) w0)) =
       ''Starting the mock database call'' @ endl @ ''Ending the mock database call'' @ endl @
       ''function took 1000 ms'' @ endl @
       ''Starting the mock database call'' @ endl @ ''Ending the mock database call'' @ endl @
       ''function took 2000 ms'' @ endl
   \<and> failing () (snd (Timing_ctor (w0\<lparr>clock := 1000000\<rparr>))) =
       (Inl ''connection lost'',
        \<lparr>cout = ''Starting the mock database call'' @ endl, clock = 1000000, steps = [], calls = 0\<rparr>)
   \<and> fst (nested_scopes (nap 1000000 ()) (failing ()) (anotherMockDatabaseCall ()) w0)
       = (Inl ''connection lost'' :: string + unit)
   \<and> cout (snd (nested_scopes (nap 1000000 () :: world \<Rightarrow> (string + unit) \<times> world)
         (failing ()) (anotherMockDatabaseCall () :: world \<Rightarrow> (string + unit) \<times> world) w0)) =
       ''Starting the mock database call'' @ endl @
       ''function took 0 ms'' @ endl @ ''function took 1 ms'' @ endl"
proof -
  let ?pre = "nap 1000000 () :: world \<Rightarrow> (string + unit) \<times> world"
  let ?body = "yetAnotherMockDatabaseCall () :: world \<Rightarrow> (string + int) \<times> world"
  let ?post = "anotherMockDatabaseCall () :: world \<Rightarrow> (string + unit) \<times> world"
  let ?S = "''Starting the mock database call'' @ endl @ ''Ending the mock database call'' @ endl"
  let ?w2 = "w0\<lparr>clock := 1000000\<rparr>"
  let ?w4 = "\<lparr>cout = ?S, clock = 1001000000, steps = [], calls = 0\<rparr>"
  let ?v5 = "\<lparr>cout = ?S @ ''function took 1000 ms'' @ endl,
         clock = 1001000000, steps = [], calls = 0\<rparr>"
  let ?w6 = "\<lparr>cout = ?S @ ''function took 1000 ms'' @ endl @ ?S,
         clock = 2001000000, steps = [], calls = 0\<rparr>"
  let ?x4 = "\<lparr>cout = ''Starting the mock database call'' @ endl, clock = 1000000, steps = [], calls = 0\<rparr>"
  let ?w5 = "Timing_dtor (fst (Timing_ctor ?w2)) ?w4"
  let ?x5 = "Timing_dtor (fst (Timing_ctor ?w2)) ?x4"
  have h1: "?pre (snd (Timing_ctor w0)) = (Inr (), ?w2)"
    by (simp add: nap_def Timing_ctor_world now_def w0_def sleep_for_def)
  have h2: "?body (snd (Timing_ctor ?w2)) = (Inr 10, ?w4)"
    by (simp add: yetAnotherMockDatabaseCall_def Timing_ctor_world now_def w0_def put_def sleep_for_def)
  have t2: "fst (now ?w2) = 1000000" and t4: "fst (now ?w4) = 1001000000"
    and t6: "fst (now ?w6) = 2001000000" and t0: "fst (now w0) = 0"
    and u4: "fst (now ?x4) = 1000000"
    by (simp_all add: now_def w0_def)
  have d: "(1001000000 :: int) - 1000000 = 1000000000" "(2001000000 :: int) - 0 = 2001000000"
    "(1000000 :: int) - 1000000 = 0" "(1000000 :: int) - 0 = 1000000"
    by simp_all
  have "?w5 = put (''function took '' @
        show_int (milliseconds_of_seconds float_prec
          (seconds_of_ticks float_prec (fst (now ?w4) - start (fst (Timing_ctor ?w2))))) @
        '' ms'' @ endl) (snd (now ?w4))"
    by (simp add: Timing_dtor_def split_beta Let_def)
  then have w5: "?w5 = ?v5"
    unfolding Timing_ctor_start t2 t4 d ms_float_second show_1000
    by (simp add: now_def put_def)
  have h3': "?post ?v5 = (Inr (), ?w6)"
    by (simp add: anotherMockDatabaseCall_def put_def sleep_for_def)
  have h3: "?post ?w5 = (Inr (), ?w6)"
    using h3' by (simp only: w5)
  have h4: "cout ?w6 = cout ?w5 @ ?S"
    unfolding w5 by simp
  have h5: "failing () (snd (Timing_ctor ?w2)) = (Inl ''connection lost'', ?x4)"
    by (simp add: failing_def Timing_ctor_world now_def w0_def put_def)
  have x5: "fst (now ?x5) = 1000000"
    by (simp add: Timing_dtor_def split_beta Let_def now_def put_def)
  note A = nested_timings_report_inner_first
    [where pre = ?pre and body = ?body and post = ?post and w = w0 and a = "()" and wp = ?w2
       and rb = "Inr 10" and wb = ?w4 and b = 10 and rp = "Inr ()" and wq = ?w6 and s = ?S,
     OF h1 h2]
  note B = nested_timings_report_inner_first
    [where pre = ?pre and body = "failing ()" and post = ?post and w = w0 and a = "()"
       and wp = ?w2 and rb = "Inl ''connection lost''" and wb = ?x4
       and e = "''connection lost''",
     OF h1 h5]
  have c1: "fst (nested_scopes ?pre ?body ?post w0) = Inr ()"
    using A h3 h4 by blast
  have "cout (snd (nested_scopes ?pre ?body ?post w0)) =
            cout ?w4 @ ''function took '' @
            show_int (milliseconds_of_seconds float_prec
              (seconds_of_ticks float_prec (fst (now ?w4) - fst (now ?w2)))) @ '' ms'' @ endl @
            ?S @ ''function took '' @
            show_int (milliseconds_of_seconds float_prec
              (seconds_of_ticks float_prec (fst (now ?w6) - fst (now w0)))) @ '' ms'' @ endl"
    using A h3 h4 by blast
  then have c2: "cout (snd (nested_scopes ?pre ?body ?post w0)) =
       ?S @ ''function took 1000 ms'' @ endl @ ?S @ ''function took 2000 ms'' @ endl"
    unfolding t2 t4 t6 t0 d ms_float_second ms_float_2001 show_1000 show_2000 by simp
  have c3: "fst (nested_scopes ?pre (failing ()) ?post w0) = Inl ''connection lost''"
    using B by blast
  have "cout (snd (nested_scopes ?pre (failing ()) ?post w0)) =
            cout ?x4 @ ''function took '' @
            show_int (milliseconds_of_seconds float_prec
              (seconds_of_ticks float_prec (fst (now ?x4) - fst (now ?w2)))) @ '' ms'' @ endl @
            ''function took '' @
            show_int (milliseconds_of_seconds float_prec
              (seconds_of_ticks float_prec (fst (now ?x5) - fst (now w0)))) @ '' ms'' @ endl"
    using B by blast
  then have c4: "cout (snd (nested_scopes ?pre (failing ()) ?post w0)) =
       ''Starting the mock database call'' @ endl @
       ''function took 0 ms'' @ endl @ ''function took 1 ms'' @ endl"
    unfolding t2 u4 x5 t0 d ms_float_0 ms_float_1 show_0 show_1 by simp
  from h1 h2 h3' w5 c1 c2 h5 c3 c4 show ?thesis
    unfolding append_assoc by blast
qed

section \<open>The report after a sleep\<close>

text \<open>
  Claim C9, as stated: for a callable that sleeps for an interval \<open>T\<close>, the reported
  duration is at least \<open>T\<close>. It is not: the report is in whole milliseconds, so a sleep
  of 1.5 ms is reported as 1 ms; and a sleep of exactly 1001 ms is reported as 1000 ms,
  because of the conversion through \<^verbatim>\<open>double\<close> seconds.
\<close>

theorem report_below_sleep_interval_counterexample:
  "clock (snd (invoke (nap 1500000) () (snd (now w0)))) - fst (now w0) = 1500000
   \<and> cout (snd (timeit_void (nap 1500000) () w0)) = ''function took 1 ms'' @ endl
   \<and> (1 :: int) * 1000000 < 1500000
   \<and> clock (snd (invoke (nap 1001000000) () (snd (now w0)))) - fst (now w0) = 1001000000
   \<and> cout (snd (timeit_void (nap 1001000000) () w0)) = ''function took 1000 ms'' @ endl
   \<and> (1000 :: int) * 1000000 < 1001000000"
proof -
  have a: "clock (snd (invoke (nap 1500000) () (snd (now w0)))) - fst (now w0) = 1500000"
    by (simp add: nap_def invoke_def now_def w0_def sleep_for_def)
  have b: "cout (snd (timeit_void (nap 1500000) () w0)) = ''function took 1 ms'' @ endl"
    by (simp add: timeit_void_def nap_def invoke_def now_def w0_def put_def sleep_for_def
        ms_double_nap show_1)
  have c: "clock (snd (invoke (nap 1001000000) () (snd (now w0)))) - fst (now w0) = 1001000000"
    by (simp add: nap_def invoke_def now_def w0_def sleep_for_def)
  have d: "cout (snd (timeit_void (nap 1001000000) () w0)) = ''function took 1000 ms'' @ endl"
    by (simp add: timeit_void_def nap_def invoke_def now_def w0_def put_def sleep_for_def
        ms_double_1001 show_1000)
  have e: "(1 :: int) * 1000000 < 1500000" "(1000 :: int) * 1000000 < 1001000000"
    by simp_all
  from a b c d e show ?thesis by blast
qed

text \<open>
  Claim C9, amended. Let the callable return normally after it has advanced the clock by
  at least \<open>T\<close> ticks past the first reading (it slept for \<open>T\<close>), \<open>0 \<le> T < 2\<^sup>6\<^sup>3\<close>,
  and let the clock not run backward before the second reading. Then the number \<open>n\<close> in
  the report line of either overload is at least \<open>T\<close> truncated to whole milliseconds,
  minus 1; and when \<open>T\<close> is a whole number of seconds, at most \<open>2\<^sup>5\<^sup>3\<close> ticks, \<open>n\<close> is at
  least \<open>T\<close> in milliseconds. Wrapping \<open>anotherMockDatabaseCall\<close>, which sleeps one second,
  on a clock whose steps are not negative gives one report line with a value of at
  least 1000.
\<close>

theorem report_lower_bound_after_sleep:
  fixes func :: "'a \<Rightarrow> world \<Rightarrow> ('e + 'r) \<times> world"
    and proc :: "'a \<Rightarrow> world \<Rightarrow> ('e + unit) \<times> world"
  shows "(invoke func args (snd (now w)) = (Inr r, w2) \<and> fst (now w) + T \<le> clock w2
          \<and> clock w2 \<le> fst (now w2) \<and> 0 \<le> T \<and> T < 2 ^ 63 \<longrightarrow>
       (\<exists>n. cout (snd (timeit_value func args w)) =
               cout w2 @ ''function took '' @ digits n @ '' ms'' @ endl
            \<and> T div 1000000 - 1 \<le> int n
            \<and> (T mod 1000000000 = 0 \<and> T \<le> 2 ^ 53 \<longrightarrow> T div 1000000 \<le> int n)))
   \<and> (invoke proc args (snd (now w)) = (Inr (), w3) \<and> fst (now w) + T \<le> clock w3
          \<and> clock w3 \<le> fst (now w3) \<and> 0 \<le> T \<and> T < 2 ^ 63 \<longrightarrow>
       (\<exists>n. cout (snd (timeit_void proc args w)) =
               cout w3 @ ''function took '' @ digits n @ '' ms'' @ endl
            \<and> T div 1000000 - 1 \<le> int n
            \<and> (T mod 1000000000 = 0 \<and> T \<le> 2 ^ 53 \<longrightarrow> T div 1000000 \<le> int n)))
   \<and> (list_all (\<lambda>d. 0 \<le> d) (steps v) \<longrightarrow>
       (\<exists>n\<ge>1000. cout (snd (timeit_void
              (anotherMockDatabaseCall :: unit \<Rightarrow> world \<Rightarrow> ('e + unit) \<times> world) () v)) =
          cout v @ ''Starting the mock database call'' @ endl @
          ''Ending the mock database call'' @ endl @
          ''function took '' @ digits n @ '' ms'' @ endl))"
proof -
  let ?ms = "\<lambda>n. milliseconds_of_seconds double_prec (seconds_of_ticks double_prec n)"
  have a: "\<exists>n. cout (snd (timeit_value func args w)) =
               cout w2 @ ''function took '' @ digits n @ '' ms'' @ endl
            \<and> T div 1000000 - 1 \<le> int n
            \<and> (T mod 1000000000 = 0 \<and> T \<le> 2 ^ 53 \<longrightarrow> T div 1000000 \<le> int n)"
    if h: "invoke func args (snd (now w)) = (Inr r, w2)" "fst (now w) + T \<le> clock w2"
      "clock w2 \<le> fst (now w2)" "0 \<le> T" "T < 2 ^ 63"
  proof -
    define d where "d = fst (now w2) - fst (now w)"
    define n where "n = nat (?ms d)"
    have Td: "T \<le> d" using h(2,3) by (simp add: d_def)
    note M = milliseconds_after_sleep [OF h(4,5) Td]
    have n: "int n = ?ms d" using M(1) by (simp add: n_def)
    have "show_int (?ms d) = digits n"
      using M(1) by (simp add: n_def show_int_nonneg)
    then have "cout (snd (timeit_value func args w)) =
               cout w2 @ ''function took '' @ digits n @ '' ms'' @ endl"
      using timeit_value_cout [OF h(1)] by (simp add: d_def)
    with M(2,3) n show ?thesis by auto
  qed
  have b: "\<exists>n. cout (snd (timeit_void proc args u)) =
               cout u3 @ ''function took '' @ digits n @ '' ms'' @ endl
            \<and> S div 1000000 - 1 \<le> int n
            \<and> (S mod 1000000000 = 0 \<and> S \<le> 2 ^ 53 \<longrightarrow> S div 1000000 \<le> int n)"
    if h: "invoke proc args (snd (now u)) = (Inr (), u3)" "fst (now u) + S \<le> clock u3"
      "clock u3 \<le> fst (now u3)" "0 \<le> S" "S < 2 ^ 63"
    for proc :: "'b \<Rightarrow> world \<Rightarrow> ('f + unit) \<times> world" and args u u3 S
  proof -
    define d where "d = fst (now u3) - fst (now u)"
    define n where "n = nat (?ms d)"
    have Td: "S \<le> d" using h(2,3) by (simp add: d_def)
    note M = milliseconds_after_sleep [OF h(4,5) Td]
    have n: "int n = ?ms d" using M(1) by (simp add: n_def)
    have "show_int (?ms d) = digits n"
      using M(1) by (simp add: n_def show_int_nonneg)
    then have "cout (snd (timeit_void proc args u)) =
               cout u3 @ ''function took '' @ digits n @ '' ms'' @ endl"
      using timeit_void_cout [OF h(1)] by (simp add: d_def)
    with M(2,3) n show ?thesis by auto
  qed
  have c: "\<exists>n\<ge>1000. cout (snd (timeit_void
              (anotherMockDatabaseCall :: unit \<Rightarrow> world \<Rightarrow> ('e + unit) \<times> world) () v)) =
          cout v @ ''Starting the mock database call'' @ endl @
          ''Ending the mock database call'' @ endl @
          ''function took '' @ digits n @ '' ms'' @ endl"
    if m: "list_all (\<lambda>d. 0 \<le> d) (steps v)"
  proof -
    let ?f = "anotherMockDatabaseCall :: unit \<Rightarrow> world \<Rightarrow> ('e + unit) \<times> world"
    define v3 where "v3 = snd (invoke ?f () (snd (now v)))"
    have 1: "invoke ?f () (snd (now v)) = (Inr (), v3)"
      by (simp add: v3_def invoke_def anotherMockDatabaseCall_def)
    have 2: "clock v3 = fst (now v) + 1000000000"
      by (simp add: v3_def invoke_def anotherMockDatabaseCall_def put_def sleep_for_def now_fst_clock)
    have 3: "steps v3 = tl (steps v)"
      by (simp add: v3_def invoke_def anotherMockDatabaseCall_def put_def sleep_for_def now_steps)
    have 4: "cout v3 = cout v @ ''Starting the mock database call'' @ endl @
          ''Ending the mock database call'' @ endl"
      by (simp add: v3_def invoke_def anotherMockDatabaseCall_def put_def sleep_for_def now_cout)
    have 5: "clock v3 \<le> fst (now v3)"
      using m by (intro now_monotonic) (simp add: 3 list_all_tl)
    from b [OF 1, of 1000000000] 2 5
    obtain n where "cout (snd (timeit_void ?f () v)) =
               cout v3 @ ''function took '' @ digits n @ '' ms'' @ endl"
      and "(1000000000 :: int) div 1000000 \<le> int n"
      by auto
    then have "1000 \<le> n \<and> cout (snd (timeit_void ?f () v)) =
          cout v @ ''Starting the mock database call'' @ endl @
          ''Ending the mock database call'' @ endl @
          ''function took '' @ digits n @ '' ms'' @ endl"
      by (simp add: 4)
    then show ?thesis by (rule exI [of _ n])
  qed
  from a b [of proc args w w3 T] c show ?thesis by blast
qed


theorem report_lower_bound_after_sleep_witness:
  "invoke (yetAnotherMockDatabaseCall :: unit \<Rightarrow> world \<Rightarrow> (unit + int) \<times> world) ()
       (snd (now (w0\<lparr>steps := [0, 1000000]\<rparr>))) =
     (Inr 10,
      \<lparr>cout = ''Starting the mock database call'' @ endl @ ''Ending the mock database call'' @ endl,
       clock = 1000000000, steps = [1000000], calls = 1\<rparr>)
   \<and> invoke (anotherMockDatabaseCall :: unit \<Rightarrow> world \<Rightarrow> (unit + unit) \<times> world) ()
       (snd (now (w0\<lparr>steps := [0, 1000000]\<rparr>))) =
     (Inr (),
      \<lparr>cout = ''Starting the mock database call'' @ endl @ ''Ending the mock database call'' @ endl,
       clock = 1000000000, steps = [1000000], calls = 1\<rparr>)
   \<and> fst (now (w0\<lparr>steps := [0, 1000000]\<rparr>)) + 1000000000 \<le> (1000000000 :: int)
   \<and> (1000000000 :: int) \<le>
       fst (now \<lparr>cout = ''Starting the mock database call'' @ endl @ ''Ending the mock database call'' @ endl,
         clock = 1000000000, steps = [1000000], calls = 1\<rparr>)
   \<and> (0 :: int) \<le> 1000000000 \<and> (1000000000 :: int) < 2 ^ 63
   \<and> (1000000000 :: int) mod 1000000000 = 0 \<and> (1000000000 :: int) \<le> 2 ^ 53
   \<and> list_all (\<lambda>d. 0 \<le> d) (steps (w0\<lparr>steps := [0, 1000000]\<rparr>))
   \<and> (\<exists>n. cout (snd (timeit_value (yetAnotherMockDatabaseCall :: unit \<Rightarrow> world \<Rightarrow> (unit + int) \<times> world) ()
         (w0\<lparr>steps := [0, 1000000]\<rparr>))) =
       ''Starting the mock database call'' @ endl @ ''Ending the mock database call'' @ endl @
       ''function took '' @ digits n @ '' ms'' @ endl \<and> 1000 \<le> int n)
   \<and> (\<exists>n. cout (snd (timeit_void (anotherMockDatabaseCall :: unit \<Rightarrow> world \<Rightarrow> (unit + unit) \<times> world) ()
         (w0\<lparr>steps := [0, 1000000]\<rparr>))) =
       ''Starting the mock database call'' @ endl @ ''Ending the mock database call'' @ endl @
       ''function took '' @ digits n @ '' ms'' @ endl \<and> 1000 \<le> int n)
   \<and> (\<exists>n\<ge>1000. cout (snd (timeit_void (anotherMockDatabaseCall :: unit \<Rightarrow> world \<Rightarrow> (unit + unit) \<times> world) ()
         (w0\<lparr>steps := [0, 1000000]\<rparr>))) =
       cout (w0\<lparr>steps := [0, 1000000]\<rparr>) @
       ''Starting the mock database call'' @ endl @ ''Ending the mock database call'' @ endl @
       ''function took '' @ digits n @ '' ms'' @ endl)"
proof -
  let ?f = "yetAnotherMockDatabaseCall :: unit \<Rightarrow> world \<Rightarrow> (unit + int) \<times> world"
  let ?g = "anotherMockDatabaseCall :: unit \<Rightarrow> world \<Rightarrow> (unit + unit) \<times> world"
  let ?w = "w0\<lparr>steps := [0, 1000000]\<rparr>"
  let ?w2 = "\<lparr>cout = ''Starting the mock database call'' @ endl @ ''Ending the mock database call'' @ endl,
       clock = 1000000000, steps = [1000000], calls = 1\<rparr>"
  note T = report_lower_bound_after_sleep [of ?f "()" ?w 10 ?w2 1000000000 ?g ?w2 ?w]
  have h1: "invoke ?f () (snd (now ?w)) = (Inr 10, ?w2)"
    by (simp add: invoke_def yetAnotherMockDatabaseCall_def now_def w0_def put_def sleep_for_def)
  have h2: "invoke ?g () (snd (now ?w)) = (Inr (), ?w2)"
    by (simp add: invoke_def anotherMockDatabaseCall_def now_def w0_def put_def sleep_for_def)
  have h3: "fst (now ?w) + 1000000000 \<le> (1000000000 :: int)"
    by (simp add: now_def w0_def)
  have h4: "(1000000000 :: int) \<le> fst (now ?w2)"
    by (simp add: now_def)
  have h5: "(0 :: int) \<le> 1000000000" "(1000000000 :: int) < 2 ^ 63"
    "(1000000000 :: int) mod 1000000000 = 0" "(1000000000 :: int) \<le> 2 ^ 53"
    by simp_all
  have h6: "list_all (\<lambda>d. 0 \<le> d) (steps ?w)"
    by (simp add: w0_def)
  have k: "cout ?w2 = ''Starting the mock database call'' @ endl @ ''Ending the mock database call'' @ endl"
    and c: "clock ?w2 = 1000000000"
    by simp_all
  have d: "(1000000000 :: int) div 1000000 = 1000"
    by simp
  have p1: "fst (now ?w) + 1000000000 \<le> clock ?w2" "clock ?w2 \<le> fst (now ?w2)"
    using h3 h4 unfolding c by simp_all
  from T h1 p1 h5 obtain n where
    "cout (snd (timeit_value ?f () ?w)) = cout ?w2 @ ''function took '' @ digits n @ '' ms'' @ endl"
    and "(1000000000 :: int) div 1000000 \<le> int n"
    by blast
  then have c1: "\<exists>n. cout (snd (timeit_value ?f () ?w)) =
       ''Starting the mock database call'' @ endl @ ''Ending the mock database call'' @ endl @
       ''function took '' @ digits n @ '' ms'' @ endl \<and> 1000 \<le> int n"
    unfolding k d by auto
  from T h2 p1 h5 obtain m where
    "cout (snd (timeit_void ?g () ?w)) = cout ?w2 @ ''function took '' @ digits m @ '' ms'' @ endl"
    and "(1000000000 :: int) div 1000000 \<le> int m"
    by blast
  then have c2: "\<exists>n. cout (snd (timeit_void ?g () ?w)) =
       ''Starting the mock database call'' @ endl @ ''Ending the mock database call'' @ endl @
       ''function took '' @ digits n @ '' ms'' @ endl \<and> 1000 \<le> int n"
    unfolding k d by auto
  from T h6 have c3: "\<exists>n\<ge>1000. cout (snd (timeit_void ?g () ?w)) =
       cout ?w @ ''Starting the mock database call'' @ endl @ ''Ending the mock database call'' @ endl @
       ''function took '' @ digits n @ '' ms'' @ endl"
    by blast
  from h1 h2 h3 h4 h5 h6 c1 c2 c3 show ?thesis
    by blast
qed

section \<open>The returned value does not depend on the clock\<close>

text \<open>
  Claim C10. The value returned by the value-returning \<open>timeit\<close> is independent of
  the clock: for a callable whose own result does not depend on the clock, changing the
  clock and all its coming steps changes nothing in what \<open>timeit\<close> returns (the report
  may differ, as the instance after the theorem shows).
\<close>

theorem timeit_value_independent_of_clock:
  fixes func :: "'a \<Rightarrow> world \<Rightarrow> ('e + 'r) \<times> world"
  assumes indep: "\<And>v c ds. fst (func args (v\<lparr>clock := c, steps := ds\<rparr>)) = fst (func args v)"
  shows "fst (timeit_value func args (w\<lparr>clock := c, steps := ds\<rparr>)) = fst (timeit_value func args w)"
proof -
  have *: "fst (invoke func args (snd (now u)))
      = fst (func args \<lparr>cout = cout u, clock = 0, steps = [], calls = Suc (calls u)\<rparr>)" for u
  proof -
    have "invoke func args (snd (now u))
        = func args (\<lparr>cout = cout u, clock = 0, steps = [], calls = Suc (calls u)\<rparr>
            \<lparr>clock := fst (now u), steps := tl (steps u)\<rparr>)"
      by (cases u; cases "steps u") (simp_all add: invoke_def now_def)
    then show ?thesis
      by (simp only: indep)
  qed
  show ?thesis
    by (simp add: timeit_value_fst *)
qed

theorem timeit_value_independent_of_clock_witness:
  "(\<forall>v c ds. fst ((yetAnotherMockDatabaseCall :: unit \<Rightarrow> world \<Rightarrow> (unit + int) \<times> world) () (v\<lparr>clock := c, steps := ds\<rparr>))
       = fst ((yetAnotherMockDatabaseCall :: unit \<Rightarrow> world \<Rightarrow> (unit + int) \<times> world) () v))
   \<and> fst (timeit_value yetAnotherMockDatabaseCall () (w0\<lparr>clock := 5, steps := [7, - 3]\<rparr>))
       = (fst (timeit_value yetAnotherMockDatabaseCall () w0) :: unit + int)
   \<and> cout (snd (timeit_value (yetAnotherMockDatabaseCall :: unit \<Rightarrow> world \<Rightarrow> (unit + int) \<times> world) ()
        (w0\<lparr>clock := 5, steps := [7, - 3]\<rparr>)))
       \<noteq> cout (snd (timeit_value (yetAnotherMockDatabaseCall :: unit \<Rightarrow> world \<Rightarrow> (unit + int) \<times> world) () w0))"
proof -
  let ?f = "yetAnotherMockDatabaseCall :: unit \<Rightarrow> world \<Rightarrow> (unit + int) \<times> world"
  have h: "\<And>v c ds. fst (?f () (v\<lparr>clock := c, steps := ds\<rparr>)) = fst (?f () v)"
    by (simp add: yetAnotherMockDatabaseCall_def)
  have a: "fst (timeit_value ?f () (w0\<lparr>clock := 5, steps := [7, - 3]\<rparr>)) = fst (timeit_value ?f () w0)"
    by (rule timeit_value_independent_of_clock [where func = ?f]) (rule h)
  have m1: "show_int (milliseconds_of_seconds double_prec (seconds_of_ticks double_prec 999999997)) = ''999''"
    by code_simp
  have m2: "show_int (milliseconds_of_seconds double_prec (seconds_of_ticks double_prec 1000000000)) = ''1000''"
    by code_simp
  have b: "cout (snd (timeit_value ?f () (w0\<lparr>clock := 5, steps := [7, - 3]\<rparr>)))
       \<noteq> cout (snd (timeit_value ?f () w0))"
    by (simp add: timeit_value_def yetAnotherMockDatabaseCall_def invoke_def now_def w0_def
        put_def sleep_for_def m1 m2)
  from h a b show ?thesis
    by blast
qed


end
